theory Spec2Isabelle
  imports Main "HOL-Library.AList"
begin

section \<open>The YouTube plugin of pystargazer: data model\<close>

text \<open>
  The development embeds \<^verbatim>\<open>src/pystargazer/plugins/youtube.py\<close>. Python objects
  are values, dictionaries are association lists in insertion order, every \<^verbatim>\<open>raise\<close>
  is a value of \<open>error\<close>, and the module globals \<^verbatim>\<open>channel_list\<close>,
  \<^verbatim>\<open>read_list\<close> and \<^verbatim>\<open>scheduler\<close> are fields of a state record that each
  operation returns updated. An exception does not roll the globals back, so an
  operation returns the state it left behind together with its outcome.

  A \<^verbatim>\<open>datetime\<close> is its number of seconds since the epoch (an \<open>int\<close>); the float
  of \<^verbatim>\<open>datetime.timestamp\<close> is the same number.
\<close>

type_synonym datetime = int

datatype ResourceType = VIDEO | BROADCAST

datatype YoutubeEventType = PUBLISH | REMINDER | SCHEDULE | LIVE

record Video =
  video_id :: string
  title :: string
  link :: string
  type :: "ResourceType option"
  description :: string
  thumbnail :: "string option"
  scheduled_start_time :: "datetime option"
  actual_start_time :: "datetime option"

datatype error =
  ValueError string
  | KeyError
  | IndexError
  | AttributeError
  | TypeError
  | JobLookupError
  | ConflictingIdError

text \<open>\<^verbatim>\<open>Video(video_id=..., title=..., link=...)\<close>: the dataclass defaults.\<close>

definition new_Video :: "string \<Rightarrow> string \<Rightarrow> string \<Rightarrow> Video" where
  "new_Video vid ttl lnk =
     \<lparr>video_id = vid, title = ttl, link = lnk, type = None, description = '''',
      thumbnail = Some '''', scheduled_start_time = None, actual_start_time = None\<rparr>"

subsection \<open>\<^verbatim>\<open>Video.dump\<close> and \<^verbatim>\<open>Video.load\<close>\<close>

text \<open>The dictionary \<^verbatim>\<open>Video.dump\<close> builds: \<^verbatim>\<open>type\<close> by its name, the times as timestamps.\<close>

record state_dict =
  d_video_id :: string
  d_title :: string
  d_link :: string
  d_type :: string
  d_description :: string
  d_thumbnail :: "string option"
  d_scheduled_start_time :: "int option"
  d_actual_start_time :: "int option"

fun ResourceType_name :: "ResourceType \<Rightarrow> string" where
  "ResourceType_name VIDEO = ''VIDEO''"
| "ResourceType_name BROADCAST = ''BROADCAST''"

text \<open>\<^verbatim>\<open>ResourceType[name]\<close> raises \<^verbatim>\<open>KeyError\<close> on any other name.\<close>

definition ResourceType_of_name :: "string \<Rightarrow> error + ResourceType" where
  "ResourceType_of_name n =
     (if n = ''VIDEO'' then Inr VIDEO
      else if n = ''BROADCAST'' then Inr BROADCAST
      else Inl KeyError)"

text \<open>\<^verbatim>\<open>self.type.name\<close> raises \<^verbatim>\<open>AttributeError\<close> when \<^verbatim>\<open>type\<close> is \<^verbatim>\<open>None\<close>.
  A \<^verbatim>\<open>datetime\<close> is always truthy, so a present time is always written.\<close>

definition dump :: "Video \<Rightarrow> error + state_dict" where
  "dump v =
     (case type v of
        None \<Rightarrow> Inl AttributeError
      | Some t \<Rightarrow>
          Inr \<lparr>d_video_id = video_id v, d_title = title v, d_link = link v,
               d_type = ResourceType_name t, d_description = description v,
               d_thumbnail = thumbnail v,
               d_scheduled_start_time = scheduled_start_time v,
               d_actual_start_time = actual_start_time v\<rparr>)"

text \<open>\<^verbatim>\<open>fromtimestamp(ts) if (ts := ...) else None\<close>: the timestamp \<open>0\<close> is falsy.\<close>

definition load_time :: "int option \<Rightarrow> datetime option" where
  "load_time ts = (case ts of None \<Rightarrow> None | Some t \<Rightarrow> (if t = 0 then None else Some t))"

definition load :: "state_dict \<Rightarrow> error + Video" where
  "load d =
     (case ResourceType_of_name (d_type d) of
        Inl e \<Rightarrow> Inl e
      | Inr t \<Rightarrow>
          Inr \<lparr>video_id = d_video_id d, title = d_title d, link = d_link d,
               type = Some t, description = d_description d,
               thumbnail = d_thumbnail d,
               scheduled_start_time = load_time (d_scheduled_start_time d),
               actual_start_time = load_time (d_actual_start_time d)\<rparr>)"

subsection \<open>\<^verbatim>\<open>YoutubeEvent\<close>\<close>

record YoutubeEvent =
  ev_type :: "ResourceType option"
  event :: YoutubeEventType
  channel :: string
  video :: Video

text \<open>The constructor with its \<^verbatim>\<open>__post_init__\<close> check.\<close>

definition new_YoutubeEvent ::
  "ResourceType option \<Rightarrow> YoutubeEventType \<Rightarrow> string \<Rightarrow> Video \<Rightarrow> error + YoutubeEvent" where
  "new_YoutubeEvent t e c v =
     (if t = Some BROADCAST \<and> scheduled_start_time v = None
      then Inl (ValueError ''Missing field(s): scheduled_start_time in video.'')
      else Inr \<lparr>ev_type = t, event = e, channel = c, video = v\<rparr>)"

section \<open>The environment: network and clock\<close>

text \<open>
  What the YouTube data API answers to one \<^verbatim>\<open>GET\<close>, as \<^verbatim>\<open>r.json()\<close> gives it:
  a falsy document, a document with no \<^verbatim>\<open>items\<close> key (the API's error body),
  or a list of items. An item has an optional \<^verbatim>\<open>snippet\<close> and optional
  \<^verbatim>\<open>liveStreamingDetails\<close>; an empty dictionary is falsy and is \<open>None\<close> here.
  \<open>thumbnails\<close>: \<open>None\<close> when the snippet has none, else the url of the standard one
  if there is one. The two start times are given parsed.
\<close>

record snippet =
  s_description :: "string option"
  s_thumbnails :: "string option option"

record liveStreamingDetails =
  scheduledStartTime :: "datetime option"
  actualStartTime :: "datetime option"

record item =
  i_snippet :: "snippet option"
  i_liveStreamingDetails :: "liveStreamingDetails option"

datatype api_response = EmptyJson | NoItems | Items "item list"

text \<open>One attempt of an HTTP request: it raises \<^verbatim>\<open>NetworkError\<close> or
  \<^verbatim>\<open>TimeoutException\<close>, or it is answered.\<close>

datatype attempt = Failed | Answered api_response

text \<open>
  The environment an operation runs in: the outcomes of the HTTP attempts still to come,
  in order, and the clock, \<open>clock k\<close> being what the \<open>k\<close>-th call of
  \<^verbatim>\<open>datetime.datetime.now()\<close> returns.
\<close>

record env =
  net :: "attempt list"
  clock :: "nat \<Rightarrow> datetime"
  reads :: nat

definition now :: "env \<Rightarrow> datetime \<times> env" where
  "now w = (clock w (reads w), w\<lparr>reads := Suc (reads w)\<rparr>)"

text \<open>
  \<^verbatim>\<open>while True: try: r = await http.get(...); break; except (NetworkError, TimeoutException): pass\<close>.
  The loop leaves only at an answered attempt; \<open>None\<close> is the loop still running when
  the recorded attempts are used up.
\<close>

fun http_retry :: "attempt list \<Rightarrow> (api_response \<times> attempt list) option" where
  "http_retry [] = None"
| "http_retry (Failed # rest) = http_retry rest"
| "http_retry (Answered r # rest) = Some (r, rest)"

text \<open>\<^verbatim>\<open>f'{snippet.get("description")} ...'\<close>\<close>

definition fmt_description :: "string option \<Rightarrow> string" where
  "fmt_description d = (case d of None \<Rightarrow> ''None'' | Some x \<Rightarrow> x) @ '' ...''"

text \<open>The part of \<^verbatim>\<open>query_video\<close> after the request: it updates the video in place
  and returns whether the resource was found.\<close>

definition apply_snippet :: "snippet option \<Rightarrow> Video \<Rightarrow> Video" where
  "apply_snippet sn v =
     (case sn of
        None \<Rightarrow> v
      | Some s \<Rightarrow>
          v\<lparr>description := fmt_description (s_description s),
            thumbnail := (case s_thumbnails s of None \<Rightarrow> None | Some u \<Rightarrow> u)\<rparr>)"

definition apply_streaming :: "liveStreamingDetails option \<Rightarrow> Video \<Rightarrow> Video" where
  "apply_streaming st v =
     (case st of
        Some l \<Rightarrow>
          (let v1 = v\<lparr>type := Some BROADCAST\<rparr>;
               v2 = (case scheduledStartTime l of
                       Some t \<Rightarrow> v1\<lparr>scheduled_start_time := Some t\<rparr>
                     | None \<Rightarrow> v1)
           in (case actualStartTime l of
                 Some t \<Rightarrow> v2\<lparr>actual_start_time := Some t\<rparr>
               | None \<Rightarrow> v2))
      | None \<Rightarrow> v\<lparr>type := Some VIDEO\<rparr>)"

definition read_response :: "api_response \<Rightarrow> Video \<Rightarrow> (error + bool) \<times> Video" where
  "read_response data v =
     (case data of
        EmptyJson \<Rightarrow> (Inr False, v)
      | NoItems \<Rightarrow> (Inl KeyError, v)
      | Items [] \<Rightarrow> (Inr False, v)
      | Items (it # _) \<Rightarrow>
          (Inr True, apply_streaming (i_liveStreamingDetails it) (apply_snippet (i_snippet it) v)))"

definition query_video :: "Video \<Rightarrow> env \<Rightarrow> ((error + bool) \<times> Video \<times> env) option" where
  "query_video v w =
     (case http_retry (net w) of
        None \<Rightarrow> None
      | Some (data, rest) \<Rightarrow>
          (case read_response data v of (r, v') \<Rightarrow> Some (r, v', w\<lparr>net := rest\<rparr>)))"

section \<open>The state of the plugin\<close>

text \<open>
  The scheduler keeps at most one job per id. A reminder job is
  \<^verbatim>\<open>partial(send_youtube_event, event_reminder)\<close> with a cron trigger at the
  fields of the scheduled time. The trigger is fixed when the job is added. The event
  of the job is recorded as it was built: in Python it shares its video object with
  \<^verbatim>\<open>channel_list\<close>, so the updates of a later query show in it too; after a tick
  the theorems below read the ids and the trigger times of the jobs only.
\<close>

record job =
  job_event :: YoutubeEvent
  fire_at :: datetime

text \<open>\<^verbatim>\<open>pystargazer.models.Event\<close>: a name, the key of the vtuber, and the payload.\<close>

datatype pvalue = PStr string | PImages "string option list" | PTime datetime

record Event =
  e_name :: string
  e_key :: string
  e_data :: "(string \<times> pvalue) list"

datatype hub_mode = Subscribe | Unsubscribe

text \<open>
  \<open>channel_list\<close>, \<open>read_list\<close> and the reminder jobs of \<open>scheduler\<close> are the module's
  globals. The other three fields record what the plugin did to the outside:
  \<open>bus\<close> the events given to \<^verbatim>\<open>app.send_event\<close>, \<open>sent\<close> the \<^verbatim>\<open>YoutubeEvent\<close>s
  that \<^verbatim>\<open>send_youtube_event\<close> has handled to its end, \<open>hub\<close> the requests posted to
  the hub (one entry per attempt).
\<close>

record state =
  channel_list :: "(string \<times> Video list) list"
  read_list :: "Video list"
  jobs :: "(string \<times> job) list"
  bus :: "Event list"
  sent :: "YoutubeEvent list"
  hub :: "(hub_mode \<times> string) list"

definition init_state :: state where
  "init_state = \<lparr>channel_list = [], read_list = [], jobs = [], bus = [], sent = [], hub = []\<rparr>"

text \<open>The configuration flags read through \<^verbatim>\<open>get_option\<close>, and the registry
  \<^verbatim>\<open>app.vtubers\<close> as the list of (key, channel id) of the entries with a
  \<^verbatim>\<open>youtube\<close> field.\<close>

record options =
  video_disabled :: bool
  live_disabled :: bool
  reminder_disabled :: bool
  schedule_disabled :: bool

record config =
  opts :: options
  vtubers :: "(string \<times> string) list"

definition get_vtuber :: "config \<Rightarrow> string \<Rightarrow> string option" where
  "get_vtuber cfg channel_id =
     map_option fst (find (\<lambda>kv. snd kv = channel_id) (vtubers cfg))"

section \<open>Sending an event\<close>

text \<open>
  \<^verbatim>\<open>send_youtube_event\<close> up to \<^verbatim>\<open>if event:\<close>. The key of the vtuber is read when
  the \<^verbatim>\<open>Event\<close> is built, \<^verbatim>\<open>strftime\<close> is called on the times; each raises
  \<^verbatim>\<open>AttributeError\<close> on \<^verbatim>\<open>None\<close>. The printed times are kept as the times.
\<close>

definition broadcast_data :: "Video \<Rightarrow> datetime \<Rightarrow> (string \<times> pvalue) list" where
  "broadcast_data v sched =
     [(''title'', PStr (title v)), (''description'', PStr (description v)),
      (''link'', PStr (link v)), (''images'', PImages [thumbnail v]),
      (''scheduled_start_time'', PTime sched)]"

definition build_event :: "config \<Rightarrow> YoutubeEvent \<Rightarrow> error + Event option" where
  "build_event cfg y =
     (let vtuber = get_vtuber cfg (channel y); v = video y in
      if ev_type y = Some VIDEO \<and> \<not> video_disabled (opts cfg) then
        (case vtuber of
           None \<Rightarrow> Inl AttributeError
         | Some k \<Rightarrow>
             Inr (Some \<lparr>e_name = ''youtube_video'', e_key = k,
                        e_data = [(''title'', PStr (title v)),
                                  (''description'', PStr (description v)),
                                  (''images'', PImages [thumbnail v]),
                                  (''link'', PStr (link v))]\<rparr>))
      else if ev_type y = Some BROADCAST then
        (case scheduled_start_time v of
           None \<Rightarrow> Inl AttributeError
         | Some sched \<Rightarrow>
             if event y = LIVE \<and> \<not> live_disabled (opts cfg) then
               (case actual_start_time v of
                  None \<Rightarrow> Inl AttributeError
                | Some act \<Rightarrow>
                    (case vtuber of
                       None \<Rightarrow> Inl AttributeError
                     | Some k \<Rightarrow>
                         Inr (Some \<lparr>e_name = ''youtube_broadcast_live'', e_key = k,
                                    e_data = broadcast_data v sched @
                                             [(''actual_start_time'', PTime act)]\<rparr>)))
             else if event y = REMINDER \<and> \<not> reminder_disabled (opts cfg) then
               (case vtuber of
                  None \<Rightarrow> Inl AttributeError
                | Some k \<Rightarrow>
                    Inr (Some \<lparr>e_name = ''youtube_broadcast_reminder'', e_key = k,
                               e_data = broadcast_data v sched\<rparr>))
             else if event y = SCHEDULE \<and> \<not> schedule_disabled (opts cfg) then
               (case vtuber of
                  None \<Rightarrow> Inl AttributeError
                | Some k \<Rightarrow>
                    Inr (Some \<lparr>e_name = ''youtube_broadcast_schedule'', e_key = k,
                               e_data = broadcast_data v sched\<rparr>))
             else Inr None)
      else Inr None)"

definition send_youtube_event :: "config \<Rightarrow> YoutubeEvent \<Rightarrow> state \<Rightarrow> (error + unit) \<times> state" where
  "send_youtube_event cfg y s =
     (case build_event cfg y of
        Inl e \<Rightarrow> (Inl e, s)
      | Inr None \<Rightarrow> (Inr (), s\<lparr>sent := sent s @ [y]\<rparr>)
      | Inr (Some ev) \<Rightarrow> (Inr (), s\<lparr>bus := bus s @ [ev], sent := sent s @ [y]\<rparr>))"

section \<open>The scheduler\<close>

text \<open>The job store of the scheduler: \<^verbatim>\<open>get_job\<close> returns \<^verbatim>\<open>None\<close> for an unknown
  id, \<^verbatim>\<open>remove_job\<close> raises \<^verbatim>\<open>JobLookupError\<close> for one, \<^verbatim>\<open>add_job\<close> raises
  \<^verbatim>\<open>ConflictingIdError\<close> for an id that has a job.\<close>

definition job_id :: "string \<Rightarrow> string \<Rightarrow> string" where
  "job_id channel_id vid = ''reminder_'' @ channel_id @ ''_'' @ vid"

definition get_job :: "string \<Rightarrow> (string \<times> job) list \<Rightarrow> job option" where
  "get_job i js = map_of js i"

definition remove_job :: "string \<Rightarrow> (string \<times> job) list \<Rightarrow> error + (string \<times> job) list" where
  "remove_job i js =
     (case map_of js i of None \<Rightarrow> Inl JobLookupError | Some _ \<Rightarrow> Inr (AList.delete i js))"

definition add_job :: "string \<Rightarrow> job \<Rightarrow> (string \<times> job) list \<Rightarrow> error + (string \<times> job) list" where
  "add_job i j js =
     (case map_of js i of None \<Rightarrow> Inr (js @ [(i, j)]) | Some _ \<Rightarrow> Inl ConflictingIdError)"

section \<open>Subscriptions\<close>

text \<open>\<^verbatim>\<open>_subscribe\<close>: the request is posted until an attempt is answered.\<close>

fun post_retry ::
  "hub_mode \<times> string \<Rightarrow> attempt list \<Rightarrow> (hub_mode \<times> string) list
     \<Rightarrow> ((hub_mode \<times> string) list \<times> attempt list) option" where
  "post_retry rq [] lg = None"
| "post_retry rq (Failed # rest) lg = post_retry rq rest (lg @ [rq])"
| "post_retry rq (Answered r # rest) lg = Some (lg @ [rq], rest)"

definition hub_subscribe :: "string \<Rightarrow> bool \<Rightarrow> state \<Rightarrow> env \<Rightarrow> (state \<times> env) option" where
  "hub_subscribe channel_id reverse s w =
     (case post_retry (if \<not> reverse then Subscribe else Unsubscribe, channel_id) (net w) (hub s) of
        None \<Rightarrow> None
      | Some (lg, rest) \<Rightarrow> Some (s\<lparr>hub := lg\<rparr>, w\<lparr>net := rest\<rparr>))"

definition subscribe :: "string \<Rightarrow> state \<Rightarrow> env \<Rightarrow> ((error + unit) \<times> state \<times> env) option" where
  "subscribe channel_id s w =
     (if map_of (channel_list s) channel_id \<noteq> None
      then Some (Inl (ValueError ''Conflict channel id.''), s, w)
      else
        (let s1 = (if channel_id \<notin> fst ` set (channel_list s)
                   then s\<lparr>channel_list := channel_list s @ [(channel_id, [])]\<rparr>
                   else s)
         in map_option (\<lambda>(s2, w2). (Inr (), s2, w2)) (hub_subscribe channel_id False s1 w)))"

text \<open>The loop of \<^verbatim>\<open>unsubscribe\<close>: a missing job is passed over.\<close>

definition remove_job_quiet :: "string \<Rightarrow> (string \<times> job) list \<Rightarrow> (string \<times> job) list" where
  "remove_job_quiet i js = (case remove_job i js of Inl _ \<Rightarrow> js | Inr js' \<Rightarrow> js')"

definition unsubscribe ::
  "string \<Rightarrow> bool \<Rightarrow> state \<Rightarrow> env \<Rightarrow> ((error + unit) \<times> state \<times> env) option" where
  "unsubscribe channel_id pop s w =
     (case map_of (channel_list s) channel_id of
        None \<Rightarrow> Some (Inl (ValueError ''Not found.''), s, w)
      | Some videos \<Rightarrow>
          (let s1 = s\<lparr>jobs := fold (\<lambda>v. remove_job_quiet (job_id channel_id (video_id v)))
                                   videos (jobs s)\<rparr>;
               s2 = (if pop then s1\<lparr>channel_list := AList.delete channel_id (channel_list s1)\<rparr>
                     else s1)
           in map_option (\<lambda>(s3, w3). (Inr (), s3, w3)) (hub_subscribe channel_id True s2 w)))"

section \<open>The endpoint\<close>

text \<open>A response is its status code and its body; \<^verbatim>\<open>Response()\<close> is an empty 200.\<close>

datatype response = Response nat "string option"

abbreviation empty_response :: response where
  "empty_response \<equiv> Response 200 None"

definition PlainTextResponse :: "string \<Rightarrow> response" where
  "PlainTextResponse content = Response 200 (Some content)"

definition HTTP_404_NOT_FOUND :: nat where
  "HTTP_404_NOT_FOUND = 404"

text \<open>The query of a verification request: \<open>topic_channel_id\<close> is what
  \<^verbatim>\<open>parse_qs(urlparse(topic).query).get("channel_id")\<close> returns.\<close>

record verification =
  topic_channel_id :: "string list option"
  challenge :: string
  mode :: string

definition get :: "state \<Rightarrow> verification \<Rightarrow> error + response" where
  "get s rq =
     (case topic_channel_id rq of
        None \<Rightarrow> Inl TypeError
      | Some [] \<Rightarrow> Inl IndexError
      | Some (channel_id # _) \<Rightarrow>
          (let accept = (mode rq = ''subscribe'' \<and> channel_id \<in> fst ` set (channel_list s)) \<or>
                        (mode rq = ''unsubscribe'' \<and> channel_id \<notin> fst ` set (channel_list s))
           in if \<not> accept then Inr (Response HTTP_404_NOT_FOUND None)
              else Inr (PlainTextResponse (challenge rq))))"

subsection \<open>Notifications\<close>

text \<open>The body of a notification: it contains \<^verbatim>\<open>deleted-entry\<close>, or it is a feed
  that \<^verbatim>\<open>feedparser\<close> reads as a list of entries.\<close>

record entry =
  yt_videoid :: string
  e_link :: string
  e_title :: string
  yt_channelid :: string

datatype notification = Deleted | Feed "entry list"

text \<open>\<^verbatim>\<open>xs.remove(x)\<close> removes the first element equal to \<open>x\<close> and raises
  \<^verbatim>\<open>ValueError\<close> when there is none.\<close>

definition list_remove :: "'a \<Rightarrow> 'a list \<Rightarrow> error + 'a list" where
  "list_remove x xs =
     (if x \<in> set xs then Inr (remove1 x xs)
      else Inl (ValueError ''list.remove(x): x not in list''))"

text \<open>\<^verbatim>\<open>old_video and all([old_video.title == video.title, ...])\<close>\<close>

definition is_dup :: "Video option \<Rightarrow> Video \<Rightarrow> bool" where
  "is_dup old_video v =
     (case old_video of
        None \<Rightarrow> False
      | Some old \<Rightarrow> title old = title v \<and> scheduled_start_time old = scheduled_start_time v)"

text \<open>The reminder of \<^verbatim>\<open>post\<close>: a job with the id is removed, then the job is added.\<close>

definition set_reminder ::
  "string \<Rightarrow> YoutubeEvent \<Rightarrow> datetime \<Rightarrow> (string \<times> job) list \<Rightarrow> error + (string \<times> job) list" where
  "set_reminder i y t js =
     (case (if get_job i js \<noteq> None then remove_job i js else Inr js) of
        Inl e \<Rightarrow> Inl e
      | Inr js1 \<Rightarrow> add_job i \<lparr>job_event = y, fire_at = t\<rparr> js1)"

text \<open>The branch of \<^verbatim>\<open>post\<close> for \<^verbatim>\<open>ResourceType.VIDEO\<close>.\<close>

definition post_video :: "config \<Rightarrow> string \<Rightarrow> Video \<Rightarrow> state \<Rightarrow> (error + response) \<times> state" where
  "post_video cfg channel_id v s =
     (case find (\<lambda>x. video_id v = video_id x) (read_list s) of
        Some _ \<Rightarrow> (Inr empty_response, s)
      | None \<Rightarrow>
          (case new_YoutubeEvent (type v) PUBLISH channel_id v of
             Inl e \<Rightarrow> (Inl e, s)
           | Inr y \<Rightarrow>
               (case send_youtube_event cfg y s of
                  (Inl e, s1) \<Rightarrow> (Inl e, s1)
                | (Inr _, s1) \<Rightarrow> (Inr empty_response, s1\<lparr>read_list := read_list s1 @ [v]\<rparr>))))"

text \<open>The branch of \<^verbatim>\<open>post\<close> for a broadcast with no actual start time. The two
  events are built before the job is set; each statement acts on the state the one
  before it left.\<close>

definition post_broadcast ::
  "config \<Rightarrow> string \<Rightarrow> Video option \<Rightarrow> Video \<Rightarrow> state \<Rightarrow> (error + response) \<times> state" where
  "post_broadcast cfg channel_id old_video v s =
     (case scheduled_start_time v of
        None \<Rightarrow> (Inr empty_response, s)
      | Some t \<Rightarrow>
          (case map_of (channel_list s) channel_id of
             None \<Rightarrow> (Inl KeyError, s)
           | Some videos \<Rightarrow>
               (case (case old_video of None \<Rightarrow> Inr videos | Some old \<Rightarrow> list_remove old videos) of
                  Inl e \<Rightarrow> (Inl e, s)
                | Inr videos1 \<Rightarrow>
                    (let s1 = s\<lparr>channel_list :=
                                  AList.update channel_id (videos1 @ [v]) (channel_list s)\<rparr> in
                     case new_YoutubeEvent (type v) SCHEDULE channel_id v of
                       Inl e \<Rightarrow> (Inl e, s1)
                     | Inr event_schedule \<Rightarrow>
                         (case new_YoutubeEvent (type v) REMINDER channel_id v of
                            Inl e \<Rightarrow> (Inl e, s1)
                          | Inr event_reminder \<Rightarrow>
                              (case set_reminder (job_id channel_id (video_id v))
                                      event_reminder t (jobs s1) of
                                 Inl e \<Rightarrow> (Inl e, s1)
                               | Inr js \<Rightarrow>
                                   (case send_youtube_event cfg event_schedule (s1\<lparr>jobs := js\<rparr>) of
                                      (Inl e, s2) \<Rightarrow> (Inl e, s2)
                                    | (Inr _, s2) \<Rightarrow> (Inr empty_response, s2))))))))"

text \<open>
  \<^verbatim>\<open>WebsubEndpoint.post\<close>. The generator expression reads
  \<^verbatim>\<open>channel_list[channel_id]\<close> when it is built, inside the \<^verbatim>\<open>try\<close> that
  catches \<^verbatim>\<open>StopIteration\<close> only: a channel that is not a key raises \<^verbatim>\<open>KeyError\<close>.
\<close>

definition post ::
  "config \<Rightarrow> notification \<Rightarrow> state \<Rightarrow> env \<Rightarrow> ((error + response) \<times> state \<times> env) option" where
  "post cfg body s w =
     (case body of
        Deleted \<Rightarrow> Some (Inr empty_response, s, w)
      | Feed [] \<Rightarrow> Some (Inl IndexError, s, w)
      | Feed (e # _) \<Rightarrow>
          (let channel_id = yt_channelid e;
               v0 = new_Video (yt_videoid e) (e_title e) (e_link e) in
           case map_of (channel_list s) channel_id of
             None \<Rightarrow> Some (Inl KeyError, s, w)
           | Some videos \<Rightarrow>
               (let old_video = find (\<lambda>x. video_id v0 = video_id x) videos in
                case query_video v0 w of
                  None \<Rightarrow> None
                | Some (Inl err, v, w1) \<Rightarrow> Some (Inl err, s, w1)
                | Some (Inr found, v, w1) \<Rightarrow>
                    if \<not> found then Some (Inr empty_response, s, w1)
                    else if is_dup old_video v then Some (Inr empty_response, s, w1)
                    else if type v = Some VIDEO then
                      (case post_video cfg channel_id v s of (r, s1) \<Rightarrow> Some (r, s1, w1))
                    else if type v = Some BROADCAST \<and> actual_start_time v = None then
                      (case post_broadcast cfg channel_id old_video v s of
                         (r, s1) \<Rightarrow> Some (r, s1, w1))
                    else Some (Inr empty_response, s, w1))))"

section \<open>The tick\<close>

text \<open>
  One pass of the inner loop of \<^verbatim>\<open>tick\<close> for one video. \<^verbatim>\<open>query_video\<close> updates
  the video object that is in \<^verbatim>\<open>channel_list\<close>, so the pass returns the video as it
  is afterwards, also when it raises, next to what it appended to \<^verbatim>\<open>remove_list\<close>.
\<close>

definition tick_video ::
  "config \<Rightarrow> string \<Rightarrow> Video \<Rightarrow> state \<Rightarrow> env
     \<Rightarrow> ((error + (string \<times> Video) list) \<times> Video \<times> state \<times> env) option" where
  "tick_video cfg channel_id v s w =
     (case now w of (t, w1) \<Rightarrow>
        (case scheduled_start_time v of
           None \<Rightarrow> Some (Inr [(channel_id, v)], v, s, w1)
         | Some sched \<Rightarrow>
             if t - sched > - 600 then
               (case query_video v w1 of
                  None \<Rightarrow> None
                | Some (Inl e, v1, w2) \<Rightarrow> Some (Inl e, v1, s, w2)
                | Some (Inr found, v1, w2) \<Rightarrow>
                    (let rm = (if \<not> found then [(channel_id, v1)] else []) in
                     case actual_start_time v1 of
                       None \<Rightarrow> Some (Inr rm, v1, s, w2)
                     | Some act \<Rightarrow>
                         if t - act < 10800 then
                           (case new_YoutubeEvent (Some BROADCAST) LIVE channel_id v1 of
                              Inl e \<Rightarrow> Some (Inl e, v1, s, w2)
                            | Inr y \<Rightarrow>
                                (case send_youtube_event cfg y s of
                                   (Inl e, s1) \<Rightarrow> Some (Inl e, v1, s1, w2)
                                 | (Inr _, s1) \<Rightarrow>
                                     Some (Inr (rm @ [(channel_id, v1)]), v1, s1, w2)))
                         else Some (Inr (rm @ [(channel_id, v1)]), v1, s, w2)))
             else Some (Inr [], v, s, w1)))"

text \<open>The inner loop over the videos of one channel, and the outer loop over
  \<^verbatim>\<open>channel_list.items()\<close>. An exception leaves the loops at once; the videos
  updated so far stay updated.\<close>

fun tick_videos ::
  "config \<Rightarrow> string \<Rightarrow> Video list \<Rightarrow> state \<Rightarrow> env
     \<Rightarrow> ((error + (string \<times> Video) list) \<times> Video list \<times> state \<times> env) option" where
  "tick_videos cfg channel_id [] s w = Some (Inr [], [], s, w)"
| "tick_videos cfg channel_id (v # vs) s w =
     (case tick_video cfg channel_id v s w of
        None \<Rightarrow> None
      | Some (Inl e, v1, s1, w1) \<Rightarrow> Some (Inl e, v1 # vs, s1, w1)
      | Some (Inr rm, v1, s1, w1) \<Rightarrow>
          (case tick_videos cfg channel_id vs s1 w1 of
             None \<Rightarrow> None
           | Some (Inl e, vs1, s2, w2) \<Rightarrow> Some (Inl e, v1 # vs1, s2, w2)
           | Some (Inr rm2, vs1, s2, w2) \<Rightarrow> Some (Inr (rm @ rm2), v1 # vs1, s2, w2)))"

fun tick_channels ::
  "config \<Rightarrow> (string \<times> Video list) list \<Rightarrow> state \<Rightarrow> env
     \<Rightarrow> ((error + (string \<times> Video) list) \<times> (string \<times> Video list) list \<times> state \<times> env) option"
  where
  "tick_channels cfg [] s w = Some (Inr [], [], s, w)"
| "tick_channels cfg ((channel_id, videos) # cl) s w =
     (case tick_videos cfg channel_id videos s w of
        None \<Rightarrow> None
      | Some (Inl e, videos1, s1, w1) \<Rightarrow> Some (Inl e, (channel_id, videos1) # cl, s1, w1)
      | Some (Inr rm, videos1, s1, w1) \<Rightarrow>
          (case tick_channels cfg cl s1 w1 of
             None \<Rightarrow> None
           | Some (Inl e, cl1, s2, w2) \<Rightarrow> Some (Inl e, (channel_id, videos1) # cl1, s2, w2)
           | Some (Inr rm2, cl1, s2, w2) \<Rightarrow>
               Some (Inr (rm @ rm2), (channel_id, videos1) # cl1, s2, w2)))"

text \<open>\<^verbatim>\<open>for channel_id, video in remove_list: channel_list[channel_id].remove(video)\<close>\<close>

fun apply_removals ::
  "(string \<times> Video) list \<Rightarrow> (string \<times> Video list) list
     \<Rightarrow> (error + unit) \<times> (string \<times> Video list) list" where
  "apply_removals [] cl = (Inr (), cl)"
| "apply_removals ((channel_id, v) # rm) cl =
     (case map_of cl channel_id of
        None \<Rightarrow> (Inl KeyError, cl)
      | Some videos \<Rightarrow>
          (case list_remove v videos of
             Inl e \<Rightarrow> (Inl e, cl)
           | Inr videos1 \<Rightarrow> apply_removals rm (AList.update channel_id videos1 cl)))"

text \<open>
  \<^verbatim>\<open>tick\<close>. The loops run over the channel list as it is at the start; sending an
  event touches \<open>bus\<close> and \<open>sent\<close> only, so the channel list with the updated videos
  is written to the state after the loops.
\<close>

definition tick :: "config \<Rightarrow> state \<Rightarrow> env \<Rightarrow> ((error + unit) \<times> state \<times> env) option" where
  "tick cfg s w =
     (case tick_channels cfg (channel_list s) s w of
        None \<Rightarrow> None
      | Some (Inl e, cl, s1, w1) \<Rightarrow> Some (Inl e, s1\<lparr>channel_list := cl\<rparr>, w1)
      | Some (Inr remove_list, cl, s1, w1) \<Rightarrow>
          (case apply_removals remove_list cl of
             (r, cl1) \<Rightarrow> Some (r, s1\<lparr>channel_list := cl1\<rparr>, w1)))"

section \<open>Saving and restoring the state\<close>

text \<open>The two records of \<^verbatim>\<open>app.plugin_state\<close>; \<open>None\<close> is a missing key.\<close>

record plugin_state =
  youtube_live_state :: "(string \<times> state_dict list) list option"
  youtube_video_state :: "state_dict list option"

fun dump_all :: "Video list \<Rightarrow> error + state_dict list" where
  "dump_all [] = Inr []"
| "dump_all (v # vs) =
     (case dump v of
        Inl e \<Rightarrow> Inl e
      | Inr d \<Rightarrow> (case dump_all vs of Inl e \<Rightarrow> Inl e | Inr ds \<Rightarrow> Inr (d # ds)))"

fun dump_channels :: "(string \<times> Video list) list \<Rightarrow> error + (string \<times> state_dict list) list" where
  "dump_channels [] = Inr []"
| "dump_channels ((channel_id, videos) # cl) =
     (case dump_all videos of
        Inl e \<Rightarrow> Inl e
      | Inr ds \<Rightarrow>
          (case dump_channels cl of Inl e \<Rightarrow> Inl e | Inr r \<Rightarrow> Inr ((channel_id, ds) # r)))"

definition dump_state :: "state \<Rightarrow> plugin_state \<Rightarrow> (error + unit) \<times> plugin_state" where
  "dump_state s st =
     (case dump_channels (channel_list s) of
        Inl e \<Rightarrow> (Inl e, st)
      | Inr channel_state \<Rightarrow>
          (case dump_all (read_list s) of
             Inl e \<Rightarrow> (Inl e, st)
           | Inr read_state \<Rightarrow>
               (Inr (), st\<lparr>youtube_live_state := Some channel_state,
                          youtube_video_state := Some read_state\<rparr>)))"

fun load_all :: "state_dict list \<Rightarrow> error + Video list" where
  "load_all [] = Inr []"
| "load_all (d # ds) =
     (case load d of
        Inl e \<Rightarrow> Inl e
      | Inr v \<Rightarrow> (case load_all ds of Inl e \<Rightarrow> Inl e | Inr vs \<Rightarrow> Inr (v # vs)))"

text \<open>
  The body of the inner loop of \<^verbatim>\<open>load_state\<close>. The result of \<^verbatim>\<open>query_video\<close> is
  not looked at. The arguments of \<^verbatim>\<open>add_job\<close> read the fields of the scheduled time,
  which raises \<^verbatim>\<open>AttributeError\<close> on \<^verbatim>\<open>None\<close>; the job is added before the video
  is appended to \<^verbatim>\<open>channel_list[channel]\<close>.
\<close>

definition load_video ::
  "string \<Rightarrow> state_dict \<Rightarrow> state \<Rightarrow> env \<Rightarrow> ((error + unit) \<times> state \<times> env) option" where
  "load_video channel_id d s w =
     (case load d of
        Inl e \<Rightarrow> Some (Inl e, s, w)
      | Inr v0 \<Rightarrow>
          (case query_video v0 w of
             None \<Rightarrow> None
           | Some (Inl e, v, w1) \<Rightarrow> Some (Inl e, s, w1)
           | Some (Inr _, v, w1) \<Rightarrow>
               (case actual_start_time v of
                  Some _ \<Rightarrow> Some (Inr (), s, w1)
                | None \<Rightarrow>
                    (case new_YoutubeEvent (type v) REMINDER channel_id v of
                       Inl e \<Rightarrow> Some (Inl e, s, w1)
                     | Inr event_reminder \<Rightarrow>
                         (case scheduled_start_time v of
                            None \<Rightarrow> Some (Inl AttributeError, s, w1)
                          | Some t \<Rightarrow>
                              (case add_job (job_id channel_id (video_id v))
                                      \<lparr>job_event = event_reminder, fire_at = t\<rparr> (jobs s) of
                                 Inl e \<Rightarrow> Some (Inl e, s, w1)
                               | Inr js \<Rightarrow>
                                   (let s1 = s\<lparr>jobs := js\<rparr> in
                                    case map_of (channel_list s1) channel_id of
                                      None \<Rightarrow> Some (Inl KeyError, s1, w1)
                                    | Some videos \<Rightarrow>
                                        Some (Inr (),
                                              s1\<lparr>channel_list :=
                                                   AList.update channel_id (videos @ [v])
                                                     (channel_list s1)\<rparr>,
                                              w1))))))))"

fun load_videos ::
  "string \<Rightarrow> state_dict list \<Rightarrow> state \<Rightarrow> env \<Rightarrow> ((error + unit) \<times> state \<times> env) option" where
  "load_videos channel_id [] s w = Some (Inr (), s, w)"
| "load_videos channel_id (d # ds) s w =
     (case load_video channel_id d s w of
        None \<Rightarrow> None
      | Some (Inl e, s1, w1) \<Rightarrow> Some (Inl e, s1, w1)
      | Some (Inr _, s1, w1) \<Rightarrow> load_videos channel_id ds s1 w1)"

fun load_channels ::
  "(string \<times> state_dict list) list \<Rightarrow> state \<Rightarrow> env \<Rightarrow> ((error + unit) \<times> state \<times> env) option"
  where
  "load_channels [] s w = Some (Inr (), s, w)"
| "load_channels ((channel_id, ds) # cs) s w =
     (case load_videos channel_id ds s w of
        None \<Rightarrow> None
      | Some (Inl e, s1, w1) \<Rightarrow> Some (Inl e, s1, w1)
      | Some (Inr _, s1, w1) \<Rightarrow> load_channels cs s1 w1)"

text \<open>\<^verbatim>\<open>load_state\<close>: a missing record is read as empty; \<^verbatim>\<open>read_list\<close> is assigned
  after the loops.\<close>

definition load_state ::
  "plugin_state \<Rightarrow> state \<Rightarrow> env \<Rightarrow> ((error + unit) \<times> state \<times> env) option" where
  "load_state st s w =
     (let channel_state = (case youtube_live_state st of None \<Rightarrow> [] | Some cs \<Rightarrow> cs);
          read_state = (case youtube_video_state st of None \<Rightarrow> [] | Some ds \<Rightarrow> ds) in
      case load_channels channel_state s w of
        None \<Rightarrow> None
      | Some (Inl e, s1, w1) \<Rightarrow> Some (Inl e, s1, w1)
      | Some (Inr _, s1, w1) \<Rightarrow>
          (case load_all read_state of
             Inl e \<Rightarrow> Some (Inl e, s1, w1)
           | Inr vs \<Rightarrow> Some (Inr (), s1\<lparr>read_list := vs\<rparr>, w1)))"

section \<open>Runs of the plugin\<close>

text \<open>
  The triggers that reach the plugin while it runs: a notification posted to the
  endpoint, the tick of the scheduler, and the registry adding or removing a channel.
  A run handles them one after the other; an exception ends the handler that raised it,
  not the run. The run is \<open>None\<close> when one of the handlers does not return.
\<close>

datatype trigger =
  Post notification
  | Tick
  | Subscribe_channel string
  | Unsubscribe_channel string bool

definition handle :: "config \<Rightarrow> trigger \<Rightarrow> state \<Rightarrow> env \<Rightarrow> (state \<times> env) option" where
  "handle cfg t s w =
     (case t of
        Post body \<Rightarrow> map_option snd (post cfg body s w)
      | Tick \<Rightarrow> map_option snd (tick cfg s w)
      | Subscribe_channel c \<Rightarrow> map_option snd (subscribe c s w)
      | Unsubscribe_channel c pop \<Rightarrow> map_option snd (unsubscribe c pop s w))"

fun run :: "config \<Rightarrow> trigger list \<Rightarrow> state \<Rightarrow> env \<Rightarrow> (state \<times> env) option" where
  "run cfg [] s w = Some (s, w)"
| "run cfg (t # ts) s w =
     (case handle cfg t s w of None \<Rightarrow> None | Some (s1, w1) \<Rightarrow> run cfg ts s1 w1)"

text \<open>The publish events for a video id among the events sent so far, and whether the
  id is in \<^verbatim>\<open>read_list\<close>.\<close>

definition publish_count :: "string \<Rightarrow> state \<Rightarrow> nat" where
  "publish_count vid s =
     length (filter (\<lambda>y. event y = PUBLISH \<and> video_id (video y) = vid) (sent s))"

definition published :: "string \<Rightarrow> state \<Rightarrow> bool" where
  "published vid s = (vid \<in> video_id ` set (read_list s))"

text \<open>What the publish path reads and writes: the publish events sent and \<open>read_list\<close>.\<close>

definition pub :: "state \<Rightarrow> YoutubeEvent list \<times> Video list" where
  "pub s = (filter (\<lambda>y. event y = PUBLISH) (sent s), read_list s)"

text \<open>No video id has more than one publish event, and an id with a publish event is
  in \<^verbatim>\<open>read_list\<close>.\<close>

definition publish_inv :: "state \<Rightarrow> bool" where
  "publish_inv s =
     (\<forall>vid. publish_count vid s \<le> 1 \<and> (0 < publish_count vid s \<longrightarrow> published vid s))"

text \<open>The live events sent so far for a video of a channel.\<close>

definition live_count :: "string \<Rightarrow> string \<Rightarrow> state \<Rightarrow> nat" where
  "live_count c vid s =
     length (filter (\<lambda>y. event y = LIVE \<and> channel y = c \<and> video_id (video y) = vid) (sent s))"

section \<open>Example inputs\<close>

text \<open>Concrete configurations, environments and states that the closed theorems below
  are evaluated at.\<close>

definition ex_options :: options where
  "ex_options = \<lparr>video_disabled = False, live_disabled = False,
                  reminder_disabled = False, schedule_disabled = False\<rparr>"

definition ex_config :: config where
  "ex_config = \<lparr>opts = ex_options, vtubers = [(''k1'', ''c1'')]\<rparr>"

definition ex_env :: "attempt list \<Rightarrow> env" where
  "ex_env n = \<lparr>net = n, clock = (\<lambda>k. 1000), reads = 0\<rparr>"

definition ex_tracked :: state where
  "ex_tracked = init_state\<lparr>channel_list := [(''c1'', [])], hub := [(Subscribe, ''c1'')]\<rparr>"

definition ex_entry :: "string \<Rightarrow> entry" where
  "ex_entry vid = \<lparr>yt_videoid = vid, e_link = ''l'', e_title = ''t'', yt_channelid = ''c1''\<rparr>"

definition ex_broadcast :: "datetime option \<Rightarrow> datetime option \<Rightarrow> api_response" where
  "ex_broadcast sch act =
     Items [\<lparr>i_snippet = None,
             i_liveStreamingDetails = Some \<lparr>scheduledStartTime = sch, actualStartTime = act\<rparr>\<rparr>]"

definition ex_plain :: api_response where
  "ex_plain = Items [\<lparr>i_snippet = None, i_liveStreamingDetails = None\<rparr>]"

definition ex_video :: "string \<Rightarrow> datetime option \<Rightarrow> datetime option \<Rightarrow> Video" where
  "ex_video vid sch act =
     \<lparr>video_id = vid, title = ''t'', link = ''l'', type = Some BROADCAST, description = '''',
      thumbnail = Some '''', scheduled_start_time = sch, actual_start_time = act\<rparr>"

definition ex_event :: "YoutubeEventType \<Rightarrow> Video \<Rightarrow> YoutubeEvent" where
  "ex_event k v = \<lparr>ev_type = Some BROADCAST, event = k, channel = ''c1'', video = v\<rparr>"

definition ex_reminder :: "string \<Rightarrow> datetime \<Rightarrow> string \<times> job" where
  "ex_reminder vid t =
     (''reminder_c1_'' @ vid,
      \<lparr>job_event = ex_event REMINDER (ex_video vid (Some t) None), fire_at = t\<rparr>)"

definition ex_bus_schedule :: "datetime \<Rightarrow> Event" where
  "ex_bus_schedule t =
     \<lparr>e_name = ''youtube_broadcast_schedule'', e_key = ''k1'',
      e_data = [(''title'', PStr ''t''), (''description'', PStr ''''), (''link'', PStr ''l''),
                (''images'', PImages [Some '''']), (''scheduled_start_time'', PTime t)]\<rparr>"

text \<open>The state after \<open>c1\<close> was subscribed and a notification announced the broadcast
  \<open>x\<close>, scheduled at 1200.\<close>

definition ex_pending :: state where
  "ex_pending =
     \<lparr>channel_list = [(''c1'', [ex_video ''x'' (Some 1200) None])], read_list = [],
      jobs = [ex_reminder ''x'' 1200], bus = [ex_bus_schedule 1200],
      sent = [ex_event SCHEDULE (ex_video ''x'' (Some 1200) None)],
      hub = [(Subscribe, ''c1'')]\<rparr>"

text \<open>The state after \<open>c1\<close> was subscribed and a notification announced the plain
  video \<open>x\<close>.\<close>

definition ex_plain_video :: Video where
  "ex_plain_video =
     \<lparr>video_id = ''x'', title = ''t'', link = ''l'', type = Some VIDEO, description = '''',
      thumbnail = Some '''', scheduled_start_time = None, actual_start_time = None\<rparr>"

definition ex_publish :: YoutubeEvent where
  "ex_publish = \<lparr>ev_type = Some VIDEO, event = PUBLISH, channel = ''c1'', video = ex_plain_video\<rparr>"

definition ex_published :: state where
  "ex_published =
     \<lparr>channel_list = [(''c1'', [])], read_list = [ex_plain_video], jobs = [],
      bus = [\<lparr>e_name = ''youtube_video'', e_key = ''k1'',
              e_data = [(''title'', PStr ''t''), (''description'', PStr ''''),
                        (''images'', PImages [Some '''']), (''link'', PStr ''l'')]\<rparr>],
      sent = [ex_publish], hub = [(Subscribe, ''c1'')]\<rparr>"

text \<open>The state after a second notification announced the broadcast \<open>y\<close>, scheduled
  at 1300.\<close>

definition ex_two :: state where
  "ex_two =
     \<lparr>channel_list = [(''c1'', [ex_video ''x'' (Some 1200) None, ex_video ''y'' (Some 1300) None])],
      read_list = [],
      jobs = [ex_reminder ''x'' 1200, ex_reminder ''y'' 1300],
      bus = [ex_bus_schedule 1200, ex_bus_schedule 1300],
      sent = [ex_event SCHEDULE (ex_video ''x'' (Some 1200) None),
              ex_event SCHEDULE (ex_video ''y'' (Some 1300) None)],
      hub = [(Subscribe, ''c1'')]\<rparr>"

text \<open>The broadcast \<open>x\<close> once the API reports that it started at 990, and what is sent
  for it.\<close>

definition ex_live_video :: Video where
  "ex_live_video = ex_video ''x'' (Some 1200) (Some 990)"

definition ex_bus_live :: Event where
  "ex_bus_live =
     \<lparr>e_name = ''youtube_broadcast_live'', e_key = ''k1'',
      e_data = [(''title'', PStr ''t''), (''description'', PStr ''''), (''link'', PStr ''l''),
                (''images'', PImages [Some '''']), (''scheduled_start_time'', PTime 1200),
                (''actual_start_time'', PTime 990)]\<rparr>"

text \<open>The state after a tick of \<open>ex_two\<close> that raised at \<open>y\<close>, and after the next tick.\<close>

definition ex_aborted :: state where
  "ex_aborted =
     ex_two\<lparr>channel_list := [(''c1'', [ex_live_video, ex_video ''y'' (Some 1300) None])],
            bus := bus ex_two @ [ex_bus_live],
            sent := sent ex_two @ [ex_event LIVE ex_live_video]\<rparr>"

definition ex_twice :: state where
  "ex_twice =
     ex_two\<lparr>channel_list := [(''c1'', [ex_video ''y'' (Some 1300) None])],
            bus := bus ex_two @ [ex_bus_live, ex_bus_live],
            sent := sent ex_two @ [ex_event LIVE ex_live_video, ex_event LIVE ex_live_video]\<rparr>"

text \<open>The state after a tick of \<open>ex_pending\<close> that found \<open>x\<close> live.\<close>

definition ex_went_live :: state where
  "ex_went_live =
     ex_pending\<lparr>channel_list := [(''c1'', [])],
                bus := bus ex_pending @ [ex_bus_live],
                sent := sent ex_pending @ [ex_event LIVE ex_live_video]\<rparr>"

text \<open>What \<open>dump_state\<close> saves of \<open>ex_pending\<close>.\<close>

definition ex_saved :: plugin_state where
  "ex_saved =
     \<lparr>youtube_live_state =
        Some [(''c1'', [\<lparr>d_video_id = ''x'', d_title = ''t'', d_link = ''l'',
                          d_type = ''BROADCAST'', d_description = '''',
                          d_thumbnail = Some '''', d_scheduled_start_time = Some 1200,
                          d_actual_start_time = None\<rparr>])],
      youtube_video_state = Some []\<rparr>"

section \<open>Auxiliary facts\<close>

lemma map_of_None_iff: "(map_of xs k = None) = (k \<notin> fst ` set xs)"
  by (simp add: map_of_eq_None_iff)

lemma map_of_Some_key: "map_of xs k = Some v \<Longrightarrow> k \<in> fst ` set xs"
  by (metis domI dom_map_of_conv_image_fst)

lemma hub_subscribe_frame:
  "hub_subscribe c r s w = Some (s', w') \<Longrightarrow>
     channel_list s' = channel_list s \<and> read_list s' = read_list s \<and> jobs s' = jobs s
     \<and> bus s' = bus s \<and> sent s' = sent s"
  by (auto simp: hub_subscribe_def split: option.splits)

section \<open>The verification handshake\<close>

text \<open>
  C6. The handshake answers with the challenge, as it was sent, exactly when the mode is
  \<open>subscribe\<close> and the channel is a key of \<open>channel_list\<close>, or the mode is
  \<open>unsubscribe\<close> and the channel is not; it answers with an empty 404 exactly in
  every other case.
\<close>

theorem get_accepts_iff:
  "(get s \<lparr>topic_channel_id = Some (c # cs), challenge = ch, mode = m\<rparr> =
      Inr (Response 200 (Some ch))) =
   ((m = ''subscribe'' \<and> c \<in> fst ` set (channel_list s)) \<or>
    (m = ''unsubscribe'' \<and> c \<notin> fst ` set (channel_list s)))
   \<and>
   (get s \<lparr>topic_channel_id = Some (c # cs), challenge = ch, mode = m\<rparr> =
      Inr (Response 404 None)) =
   (\<not> ((m = ''subscribe'' \<and> c \<in> fst ` set (channel_list s)) \<or>
       (m = ''unsubscribe'' \<and> c \<notin> fst ` set (channel_list s))))"
  by (auto simp: get_def PlainTextResponse_def HTTP_404_NOT_FOUND_def)

section \<open>Subscribing and unsubscribing\<close>

text \<open>
  C9. \<open>subscribe\<close> raises the conflict error when the channel is tracked, and raises
  nothing else; for a channel that is not tracked it is the hub request issued from the
  state in which the channel has an empty list of pending videos. \<open>unsubscribe\<close> raises
  the not-found error when the channel is not tracked, and raises nothing else; when it
  returns and removal was asked for, the channel was tracked and is no longer a key.
\<close>

theorem subscribe_unsubscribe_errors:
  "(c \<in> fst ` set (channel_list s) \<longrightarrow>
      subscribe c s w = Some (Inl (ValueError ''Conflict channel id.''), s, w))
   \<and> (c \<notin> fst ` set (channel_list s) \<longrightarrow>
      subscribe c s w =
        map_option (\<lambda>(s', w'). (Inr (), s', w'))
          (hub_subscribe c False (s\<lparr>channel_list := channel_list s @ [(c, [])]\<rparr>) w))
   \<and> (\<forall>e s' w'. subscribe c s w = Some (Inl e, s', w') \<longrightarrow>
         c \<in> fst ` set (channel_list s) \<and> e = ValueError ''Conflict channel id.'')
   \<and> (c \<notin> fst ` set (channel_list s) \<longrightarrow>
      unsubscribe c pop s w = Some (Inl (ValueError ''Not found.''), s, w))
   \<and> (\<forall>e s' w'. unsubscribe c pop s w = Some (Inl e, s', w') \<longrightarrow>
         c \<notin> fst ` set (channel_list s) \<and> e = ValueError ''Not found.'')
   \<and> (\<forall>s' w'. unsubscribe c True s w = Some (Inr (), s', w') \<longrightarrow>
         c \<in> fst ` set (channel_list s) \<and> c \<notin> fst ` set (channel_list s'))"
proof (intro conjI allI impI)
  assume "c \<in> fst ` set (channel_list s)"
  then show "subscribe c s w = Some (Inl (ValueError ''Conflict channel id.''), s, w)"
    by (simp add: subscribe_def map_of_None_iff)
next
  assume "c \<notin> fst ` set (channel_list s)"
  then show "subscribe c s w =
        map_option (\<lambda>(s', w'). (Inr (), s', w'))
          (hub_subscribe c False (s\<lparr>channel_list := channel_list s @ [(c, [])]\<rparr>) w)"
    by (simp add: subscribe_def map_of_None_iff)
next
  fix e s' w' assume "subscribe c s w = Some (Inl e, s', w')"
  then show "c \<in> fst ` set (channel_list s)" "e = ValueError ''Conflict channel id.''"
    by (auto simp: subscribe_def map_of_None_iff split: if_splits)
next
  assume "c \<notin> fst ` set (channel_list s)"
  then show "unsubscribe c pop s w = Some (Inl (ValueError ''Not found.''), s, w)"
    by (simp add: unsubscribe_def map_of_None_iff[symmetric])
next
  fix e s' w' assume "unsubscribe c pop s w = Some (Inl e, s', w')"
  then show "c \<notin> fst ` set (channel_list s)" "e = ValueError ''Not found.''"
    by (auto simp: unsubscribe_def map_of_None_iff[symmetric] Let_def split: option.splits)
next
  fix s' w' assume a: "unsubscribe c True s w = Some (Inr (), s', w')"
  then show "c \<in> fst ` set (channel_list s)"
    by (auto simp: unsubscribe_def dest: map_of_Some_key split: option.splits)
  from a show "c \<notin> fst ` set (channel_list s')"
    using AList.delete_notin_dom[of c "channel_list s"]
    by (auto simp: unsubscribe_def Let_def dest!: hub_subscribe_frame split: option.splits)
qed

theorem subscribe_unsubscribe_errors_witness:
  "subscribe ''c1'' ex_tracked (ex_env [Answered EmptyJson]) =
     Some (Inl (ValueError ''Conflict channel id.''), ex_tracked, ex_env [Answered EmptyJson])
   \<and> subscribe ''c1'' init_state (ex_env [Failed, Answered EmptyJson]) =
     Some (Inr (), init_state\<lparr>channel_list := [(''c1'', [])],
                              hub := [(Subscribe, ''c1''), (Subscribe, ''c1'')]\<rparr>, ex_env [])
   \<and> unsubscribe ''c1'' True init_state (ex_env [Answered EmptyJson]) =
     Some (Inl (ValueError ''Not found.''), init_state, ex_env [Answered EmptyJson])
   \<and> unsubscribe ''c1'' True ex_tracked (ex_env [Answered EmptyJson]) =
     Some (Inr (), init_state\<lparr>hub := [(Subscribe, ''c1''), (Unsubscribe, ''c1'')]\<rparr>, ex_env [])
   \<and> ''c1'' \<in> fst ` set (channel_list ex_tracked)
   \<and> ''c1'' \<notin> fst ` set (channel_list
                             (init_state\<lparr>hub := [(Subscribe, ''c1''), (Unsubscribe, ''c1'')]\<rparr>))"
proof -
  have t: "''c1'' \<in> fst ` set (channel_list ex_tracked)"
    by (simp add: ex_tracked_def init_state_def)
  have u: "''c1'' \<notin> fst ` set (channel_list init_state)"
    by (simp add: init_state_def)
  have h: "hub_subscribe ''c1'' False
             (init_state\<lparr>channel_list := channel_list init_state @ [(''c1'', [])]\<rparr>)
             (ex_env [Failed, Answered EmptyJson]) =
           Some (init_state\<lparr>channel_list := [(''c1'', [])],
                              hub := [(Subscribe, ''c1''), (Subscribe, ''c1'')]\<rparr>, ex_env [])"
    by (simp add: hub_subscribe_def init_state_def ex_env_def)
  have us: "unsubscribe ''c1'' True ex_tracked (ex_env [Answered EmptyJson]) =
     Some (Inr (), init_state\<lparr>hub := [(Subscribe, ''c1''), (Unsubscribe, ''c1'')]\<rparr>, ex_env [])"
    by (simp add: unsubscribe_def hub_subscribe_def init_state_def ex_env_def ex_tracked_def
        AList.delete_eq)
  note A = subscribe_unsubscribe_errors
             [of "''c1''" ex_tracked "ex_env [Answered EmptyJson]" True]
  note B = subscribe_unsubscribe_errors
             [of "''c1''" init_state "ex_env [Failed, Answered EmptyJson]" True]
  note C = subscribe_unsubscribe_errors
             [of "''c1''" init_state "ex_env [Answered EmptyJson]" True]
  from A t have 1: "subscribe ''c1'' ex_tracked (ex_env [Answered EmptyJson]) =
     Some (Inl (ValueError ''Conflict channel id.''), ex_tracked, ex_env [Answered EmptyJson])"
    by blast
  from B u have "subscribe ''c1'' init_state (ex_env [Failed, Answered EmptyJson]) =
        map_option (\<lambda>(s', w'). (Inr (), s', w'))
          (hub_subscribe ''c1'' False
             (init_state\<lparr>channel_list := channel_list init_state @ [(''c1'', [])]\<rparr>)
             (ex_env [Failed, Answered EmptyJson]))"
    by blast
  then have 2: "subscribe ''c1'' init_state (ex_env [Failed, Answered EmptyJson]) =
     Some (Inr (), init_state\<lparr>channel_list := [(''c1'', [])],
                              hub := [(Subscribe, ''c1''), (Subscribe, ''c1'')]\<rparr>, ex_env [])"
    by (simp only: h option.map prod.case)
  from C u have 3: "unsubscribe ''c1'' True init_state (ex_env [Answered EmptyJson]) =
     Some (Inl (ValueError ''Not found.''), init_state, ex_env [Answered EmptyJson])"
    by blast
  from A us have 4: "''c1'' \<notin> fst ` set (channel_list
                             (init_state\<lparr>hub := [(Subscribe, ''c1''), (Unsubscribe, ''c1'')]\<rparr>))"
    by blast
  from 1 2 3 us t 4 show ?thesis by blast
qed

section \<open>Notifications\<close>

text \<open>
  C7. A notification for a video that is pending in its channel, whose title and
  scheduled start time after the query are those of the pending video, is answered with
  the empty response and leaves the whole state as it was: no event, no change of the
  pending videos, no change of the jobs.
\<close>

theorem post_duplicate_ignored:
  assumes "map_of (channel_list s) (yt_channelid e) = Some videos"
    and "find (\<lambda>x. yt_videoid e = video_id x) videos = Some old"
    and "query_video (new_Video (yt_videoid e) (e_title e) (e_link e)) w = Some (Inr True, v, w1)"
    and "title old = title v"
    and "scheduled_start_time old = scheduled_start_time v"
  shows "post cfg (Feed (e # es)) s w = Some (Inr empty_response, s, w1)"
  using assms by (simp add: post_def Let_def is_dup_def new_Video_def)

text \<open>
  C8. A notification that resolves to a broadcast with neither an actual nor a scheduled
  start time is answered with the empty response and leaves the whole state as it was.
\<close>

theorem post_malformed_dropped:
  assumes "map_of (channel_list s) (yt_channelid e) = Some videos"
    and "query_video (new_Video (yt_videoid e) (e_title e) (e_link e)) w = Some (Inr True, v, w1)"
    and "type v = Some BROADCAST"
    and "actual_start_time v = None"
    and "scheduled_start_time v = None"
  shows "post cfg (Feed (e # es)) s w = Some (Inr empty_response, s, w1)"
  using assms by (simp add: post_def Let_def post_broadcast_def)

lemma ex_query_broadcast:
  "query_video (new_Video vid ''t'' ''l'') (ex_env (Answered (ex_broadcast sch act) # n)) =
     Some (Inr True, ex_video vid sch act, ex_env n)"
  by (cases sch; cases act)
     (simp_all add: query_video_def read_response_def ex_env_def ex_broadcast_def ex_video_def
        new_Video_def apply_snippet_def apply_streaming_def)

lemma ex_pending_reached:
  "post ex_config (Feed [ex_entry ''x'']) ex_tracked
     (ex_env (Answered (ex_broadcast (Some 1200) None) # n)) =
   Some (Inr empty_response, ex_pending, ex_env n)"
  by (simp add: post_def ex_entry_def ex_query_broadcast Let_def ex_tracked_def init_state_def
      is_dup_def ex_video_def post_broadcast_def new_YoutubeEvent_def set_reminder_def
      get_job_def add_job_def job_id_def send_youtube_event_def build_event_def ex_config_def
      ex_options_def get_vtuber_def broadcast_data_def ex_pending_def ex_reminder_def
      ex_event_def ex_bus_schedule_def)

theorem post_duplicate_ignored_witness:
  "post ex_config (Feed [ex_entry ''x'']) ex_pending
     (ex_env [Answered (ex_broadcast (Some 1200) None)]) =
   Some (Inr empty_response, ex_pending, ex_env [])"
proof -
  have 1: "map_of (channel_list ex_pending) (yt_channelid (ex_entry ''x'')) =
             Some [ex_video ''x'' (Some 1200) None]"
    by (simp add: ex_pending_def ex_entry_def)
  have 2: "find (\<lambda>x. yt_videoid (ex_entry ''x'') = video_id x) [ex_video ''x'' (Some 1200) None] =
             Some (ex_video ''x'' (Some 1200) None)"
    by (simp add: ex_entry_def ex_video_def)
  have 3: "query_video (new_Video (yt_videoid (ex_entry ''x'')) (e_title (ex_entry ''x''))
                          (e_link (ex_entry ''x'')))
             (ex_env [Answered (ex_broadcast (Some 1200) None)]) =
           Some (Inr True, ex_video ''x'' (Some 1200) None, ex_env [])"
    by (simp add: ex_entry_def ex_query_broadcast)
  show ?thesis
    by (rule post_duplicate_ignored [OF 1 2 3]) simp_all
qed

theorem post_malformed_dropped_witness:
  "post ex_config (Feed [ex_entry ''y'']) ex_pending
     (ex_env [Answered (ex_broadcast None None)]) =
   Some (Inr empty_response, ex_pending, ex_env [])"
proof -
  have 1: "map_of (channel_list ex_pending) (yt_channelid (ex_entry ''y'')) =
             Some [ex_video ''x'' (Some 1200) None]"
    by (simp add: ex_pending_def ex_entry_def)
  have 3: "query_video (new_Video (yt_videoid (ex_entry ''y'')) (e_title (ex_entry ''y''))
                          (e_link (ex_entry ''y'')))
             (ex_env [Answered (ex_broadcast None None)]) =
           Some (Inr True, ex_video ''y'' None None, ex_env [])"
    by (simp add: ex_entry_def ex_query_broadcast)
  show ?thesis
    by (rule post_malformed_dropped [OF 1 3]) (simp_all add: ex_video_def)
qed

text \<open>A notification for a channel that is not a key of \<open>channel_list\<close> raises
  \<^verbatim>\<open>KeyError\<close> before the video is queried: nothing is read from the network and the
  state is as it was.\<close>

lemma post_untracked_KeyError:
  "yt_channelid e \<notin> fst ` set (channel_list s) \<Longrightarrow>
   post cfg (Feed (e # es)) s w = Some (Inl KeyError, s, w)"
  by (simp add: post_def Let_def map_of_None_iff [symmetric])

text \<open>
  C3. The claim is that a notification for a channel that is not tracked is still
  processed and answered with success. The handler does neither: with no channel
  subscribed, the notification of a plain video \<open>x\<close> of channel \<open>c1\<close>, which the API
  would resolve, ends in \<^verbatim>\<open>KeyError\<close>; the API is not asked, nothing is published,
  and no response is returned.
\<close>

theorem post_untracked_raises:
  "post ex_config (Feed [ex_entry ''x'']) init_state (ex_env [Answered ex_plain]) =
     Some (Inl KeyError, init_state, ex_env [Answered ex_plain])"
  by (simp add: post_def Let_def ex_entry_def init_state_def)

section \<open>Events of broadcast kind\<close>

lemma build_event_schedule:
  "build_event cfg y = Inr (Some ev) \<Longrightarrow> e_name ev \<noteq> ''youtube_video'' \<Longrightarrow>
   \<exists>t. scheduled_start_time (video y) = Some t \<and>
       map_of (e_data ev) ''scheduled_start_time'' = Some (PTime t)"
  by (auto simp: build_event_def Let_def broadcast_data_def split: if_splits option.splits)

lemma send_youtube_event_bus:
  "send_youtube_event cfg y s = (r, s') \<Longrightarrow> ev \<in> set (bus s') \<Longrightarrow> ev \<notin> set (bus s) \<Longrightarrow>
   build_event cfg y = Inr (Some ev)"
  by (auto simp: send_youtube_event_def split: sum.splits option.splits)

text \<open>A query never takes the scheduled start time away from a video, so an event
  that was built with one keeps it while its video is updated.\<close>

lemma read_response_keeps_schedule:
  "scheduled_start_time v \<noteq> None \<Longrightarrow> scheduled_start_time (snd (read_response d v)) \<noteq> None"
  by (auto simp: read_response_def apply_streaming_def apply_snippet_def Let_def
      split: api_response.splits list.splits option.splits)

text \<open>
  C10. Building an event of broadcast kind for a video with no scheduled start time
  raises the \<^verbatim>\<open>ValueError\<close>; an event of broadcast kind that was built has a video
  with a scheduled start time; and every event that \<open>send_youtube_event\<close> gives to the
  bus, other than the event of a plain video, carries the scheduled start time of its
  video in its payload.
\<close>

theorem broadcast_event_has_schedule:
  "(scheduled_start_time v = None \<longrightarrow>
      new_YoutubeEvent (Some BROADCAST) k c v =
        Inl (ValueError ''Missing field(s): scheduled_start_time in video.''))
   \<and> (\<forall>y. new_YoutubeEvent (Some BROADCAST) k c v = Inr y \<longrightarrow>
          scheduled_start_time (video y) \<noteq> None)
   \<and> (\<forall>y s r s' ev.
         send_youtube_event cfg y s = (r, s') \<longrightarrow> ev \<in> set (bus s') \<longrightarrow> ev \<notin> set (bus s) \<longrightarrow>
         e_name ev \<noteq> ''youtube_video'' \<longrightarrow>
         (\<exists>t. scheduled_start_time (video y) = Some t \<and>
              map_of (e_data ev) ''scheduled_start_time'' = Some (PTime t)))"
proof (intro conjI allI impI)
  assume "scheduled_start_time v = None"
  then show "new_YoutubeEvent (Some BROADCAST) k c v =
        Inl (ValueError ''Missing field(s): scheduled_start_time in video.'')"
    by (simp add: new_YoutubeEvent_def)
next
  fix y assume "new_YoutubeEvent (Some BROADCAST) k c v = Inr y"
  then show "scheduled_start_time (video y) \<noteq> None"
    by (auto simp: new_YoutubeEvent_def split: if_splits)
next
  fix y s r s' ev
  assume a: "send_youtube_event cfg y s = (r, s')" "ev \<in> set (bus s')" "ev \<notin> set (bus s)"
    and n: "e_name ev \<noteq> ''youtube_video''"
  from a have "build_event cfg y = Inr (Some ev)"
    by (rule send_youtube_event_bus)
  from build_event_schedule [OF this n]
  show "\<exists>t. scheduled_start_time (video y) = Some t \<and>
              map_of (e_data ev) ''scheduled_start_time'' = Some (PTime t)" .
qed

lemma ex_send_schedule:
  "send_youtube_event ex_config (ex_event SCHEDULE (ex_video ''x'' (Some 1200) None)) ex_tracked =
     (Inr (), ex_tracked\<lparr>bus := [ex_bus_schedule 1200],
                          sent := [ex_event SCHEDULE (ex_video ''x'' (Some 1200) None)]\<rparr>)"
  by (simp add: send_youtube_event_def build_event_def ex_config_def ex_options_def
      get_vtuber_def ex_event_def ex_video_def broadcast_data_def ex_bus_schedule_def
      ex_tracked_def init_state_def)

theorem broadcast_event_has_schedule_witness:
  "new_YoutubeEvent (Some BROADCAST) LIVE ''c1'' (ex_video ''x'' None None) =
     Inl (ValueError ''Missing field(s): scheduled_start_time in video.'')
   \<and> new_YoutubeEvent (Some BROADCAST) SCHEDULE ''c1'' (ex_video ''x'' (Some 1200) None) =
       Inr (ex_event SCHEDULE (ex_video ''x'' (Some 1200) None))
   \<and> scheduled_start_time (video (ex_event SCHEDULE (ex_video ''x'' (Some 1200) None))) \<noteq> None
   \<and> map_of (e_data (ex_bus_schedule 1200)) ''scheduled_start_time'' = Some (PTime 1200)"
proof -
  note A = broadcast_event_has_schedule [of "ex_video ''x'' None None" LIVE "''c1''" ex_config]
  note B = broadcast_event_has_schedule
             [of "ex_video ''x'' (Some 1200) None" SCHEDULE "''c1''" ex_config]
  have n: "scheduled_start_time (ex_video ''x'' None None) = None"
    by (simp add: ex_video_def)
  from A n have 1: "new_YoutubeEvent (Some BROADCAST) LIVE ''c1'' (ex_video ''x'' None None) =
     Inl (ValueError ''Missing field(s): scheduled_start_time in video.'')"
    by blast
  have 2: "new_YoutubeEvent (Some BROADCAST) SCHEDULE ''c1'' (ex_video ''x'' (Some 1200) None) =
       Inr (ex_event SCHEDULE (ex_video ''x'' (Some 1200) None))"
    by (simp add: new_YoutubeEvent_def ex_event_def ex_video_def)
  from B 2 have 3:
    "scheduled_start_time (video (ex_event SCHEDULE (ex_video ''x'' (Some 1200) None))) \<noteq> None"
    by blast
  have i: "ex_bus_schedule 1200 \<in> set (bus (ex_tracked\<lparr>bus := [ex_bus_schedule 1200],
                          sent := [ex_event SCHEDULE (ex_video ''x'' (Some 1200) None)]\<rparr>))"
    by simp
  have o: "ex_bus_schedule 1200 \<notin> set (bus ex_tracked)"
    by (simp add: ex_tracked_def init_state_def)
  have m: "e_name (ex_bus_schedule 1200) \<noteq> ''youtube_video''"
    by (simp add: ex_bus_schedule_def)
  from B ex_send_schedule i o m
  obtain t where t: "scheduled_start_time (video (ex_event SCHEDULE (ex_video ''x'' (Some 1200) None)))
             = Some t"
    "map_of (e_data (ex_bus_schedule 1200)) ''scheduled_start_time'' = Some (PTime t)"
    by blast
  from t(1) have "t = 1200"
    by (simp add: ex_event_def ex_video_def)
  with t(2) have 4: "map_of (e_data (ex_bus_schedule 1200)) ''scheduled_start_time'' = Some (PTime 1200)"
    by simp
  from 1 2 3 4 show ?thesis by blast
qed

section \<open>Publishing a video once\<close>

lemma publish_count_pub:
  "publish_count vid s = length (filter (\<lambda>y. video_id (video y) = vid) (fst (pub s)))"
  by (simp add: publish_count_def pub_def conj_commute)

lemma published_pub: "published vid s = (vid \<in> video_id ` set (snd (pub s)))"
  by (simp add: published_def pub_def)

lemma send_youtube_event_pub:
  "send_youtube_event cfg y s = (r, s') \<Longrightarrow> event y \<noteq> PUBLISH \<Longrightarrow> pub s' = pub s"
  by (auto simp: send_youtube_event_def pub_def split: sum.splits option.splits)

lemma send_youtube_event_cases:
  "send_youtube_event cfg y s = (r, s') \<Longrightarrow>
   (r = Inr () \<and> sent s' = sent s @ [y] \<and> read_list s' = read_list s) \<or> (r \<noteq> Inr () \<and> s' = s)"
  by (auto simp: send_youtube_event_def split: sum.splits option.splits)

lemma new_YoutubeEvent_fields:
  "new_YoutubeEvent t k c v = Inr y \<Longrightarrow> event y = k \<and> video y = v \<and> channel y = c \<and> ev_type y = t"
  by (auto simp: new_YoutubeEvent_def split: if_splits)

lemma tick_video_pub:
  "tick_video cfg c v s w = Some (r, v1, s1, w1) \<Longrightarrow> pub s1 = pub s"
  by (auto simp: tick_video_def Let_def now_def
      split: option.splits if_splits sum.splits prod.splits
      dest!: new_YoutubeEvent_fields dest: send_youtube_event_pub)

lemma tick_videos_pub:
  "tick_videos cfg c vs s w = Some (r, vs1, s1, w1) \<Longrightarrow> pub s1 = pub s"
proof (induction vs arbitrary: s w r vs1 s1 w1)
  case Nil
  then show ?case by simp
next
  case (Cons v vs)
  then show ?case
    by (auto split: option.splits sum.splits prod.splits dest: tick_video_pub)
qed

lemma tick_channels_pub:
  "tick_channels cfg cl s w = Some (r, cl1, s1, w1) \<Longrightarrow> pub s1 = pub s"
proof (induction cl arbitrary: s w r cl1 s1 w1)
  case Nil
  then show ?case by simp
next
  case (Cons a cl)
  obtain c vs where a: "a = (c, vs)" by (cases a)
  from Cons show ?case unfolding a
    by (auto split: option.splits sum.splits prod.splits dest: tick_videos_pub)
qed

lemma pub_channel_list [simp]: "pub (s\<lparr>channel_list := cl\<rparr>) = pub s"
  by (simp add: pub_def)

lemma pub_jobs [simp]: "pub (s\<lparr>jobs := js\<rparr>) = pub s"
  by (simp add: pub_def)

lemma pub_hub [simp]: "pub (s\<lparr>hub := h\<rparr>) = pub s"
  by (simp add: pub_def)

lemma tick_pub: "tick cfg s w = Some (r, s1, w1) \<Longrightarrow> pub s1 = pub s"
  by (auto simp: tick_def split: option.splits sum.splits prod.splits dest: tick_channels_pub)

lemma subscribe_pub: "subscribe c s w = Some (r, s1, w1) \<Longrightarrow> pub s1 = pub s"
  by (auto simp: subscribe_def hub_subscribe_def split: if_splits option.splits)

lemma unsubscribe_pub: "unsubscribe c p s w = Some (r, s1, w1) \<Longrightarrow> pub s1 = pub s"
  by (auto simp: unsubscribe_def hub_subscribe_def Let_def split: if_splits option.splits)

lemma post_broadcast_pub: "post_broadcast cfg c old v s = (r, s1) \<Longrightarrow> pub s1 = pub s"
  by (auto simp: post_broadcast_def Let_def
      split: option.splits sum.splits prod.splits
      dest!: new_YoutubeEvent_fields dest!: send_youtube_event_pub)

lemma publish_inv_pub: "pub s1 = pub s \<Longrightarrow> publish_inv s1 = publish_inv s"
  by (simp add: publish_inv_def publish_count_pub published_pub)

lemma publish_inv_init: "publish_inv init_state"
  by (simp add: publish_inv_def publish_count_def init_state_def)

lemma find_None_video_id:
  "find (\<lambda>x. video_id v = video_id x) vs = None \<Longrightarrow> video_id v \<notin> video_id ` set vs"
  by (auto simp: find_None_iff)

lemma find_Some_video_id:
  "find (\<lambda>x. video_id v = video_id x) vs = Some x \<Longrightarrow> video_id v \<in> video_id ` set vs"
  by (induction vs) (auto split: if_splits)

text \<open>The branch for a plain video, case by case.\<close>

lemma post_video_cases:
  assumes "post_video cfg c v s = (r, s1)"
  shows "(published (video_id v) s \<and> s1 = s \<and> r = Inr empty_response)
       \<or> (\<not> published (video_id v) s \<and> s1 = s \<and> (\<exists>err. r = Inl err))
       \<or> (\<not> published (video_id v) s \<and> r = Inr empty_response
           \<and> sent s1 = sent s @ [\<lparr>ev_type = type v, event = PUBLISH, channel = c, video = v\<rparr>]
           \<and> read_list s1 = read_list s @ [v])"
proof (cases "find (\<lambda>x. video_id v = video_id x) (read_list s)")
  case (Some x)
  with assms find_Some_video_id [OF Some] show ?thesis
    by (simp add: post_video_def published_def)
next
  case None
  note n = find_None_video_id [OF None]
  show ?thesis
  proof (cases "new_YoutubeEvent (type v) PUBLISH c v")
    case (Inl e)
    with assms None n show ?thesis
      by (auto simp: post_video_def published_def)
  next
    case (Inr y)
    then have y: "y = \<lparr>ev_type = type v, event = PUBLISH, channel = c, video = v\<rparr>"
      by (auto simp: new_YoutubeEvent_def split: if_splits)
    obtain r' s' where snd: "send_youtube_event cfg y s = (r', s')"
      by (cases "send_youtube_event cfg y s")
    from send_youtube_event_cases [OF snd] assms None Inr snd n y show ?thesis
      by (auto simp: post_video_def published_def split: sum.splits)
  qed
qed

lemma post_video_inv:
  assumes "post_video cfg c v s = (r, s1)" and "publish_inv s"
  shows "publish_inv s1"
proof -
  from post_video_cases [OF assms(1)]
  consider "s1 = s"
    | "\<not> published (video_id v) s"
      "sent s1 = sent s @ [\<lparr>ev_type = type v, event = PUBLISH, channel = c, video = v\<rparr>]"
      "read_list s1 = read_list s @ [v]"
    by blast
  then show ?thesis
  proof cases
    case 1
    with assms(2) show ?thesis by simp
  next
    case 2
    from assms(2) 2(1) have z: "publish_count (video_id v) s = 0"
      by (auto simp: publish_inv_def)
    show ?thesis
      unfolding publish_inv_def
    proof (intro allI)
      fix vid
      show "publish_count vid s1 \<le> 1 \<and> (0 < publish_count vid s1 \<longrightarrow> published vid s1)"
      proof (cases "vid = video_id v")
        case True
        with z 2 show ?thesis
          by (simp add: publish_count_def published_def)
      next
        case False
        with assms(2) 2 show ?thesis
          by (auto simp: publish_inv_def publish_count_def published_def)
      qed
    qed
  qed
qed

lemma post_inv:
  assumes "post cfg body s w = Some (r, s1, w1)" and "publish_inv s"
  shows "publish_inv s1"
  using assms
  by (auto simp: post_def Let_def
      split: notification.splits list.splits option.splits sum.splits prod.splits if_splits
      dest: post_video_inv post_broadcast_pub [THEN publish_inv_pub])

lemma handle_inv:
  assumes "handle cfg t s w = Some (s1, w1)" and "publish_inv s"
  shows "publish_inv s1"
  using assms
  by (cases t)
     (auto simp: handle_def dest: post_inv
        tick_pub [THEN publish_inv_pub] subscribe_pub [THEN publish_inv_pub]
        unsubscribe_pub [THEN publish_inv_pub])

lemma run_inv:
  "run cfg ts s w = Some (s1, w1) \<Longrightarrow> publish_inv s \<Longrightarrow> publish_inv s1"
proof (induction ts arbitrary: s w)
  case Nil
  then show ?case by simp
next
  case (Cons t ts)
  then show ?case
    by (auto split: option.splits dest: handle_inv)
qed

lemma query_video_video_id:
  "query_video v0 w = Some (r, v, w1) \<Longrightarrow> video_id v = video_id v0"
  by (auto simp: query_video_def read_response_def apply_streaming_def apply_snippet_def Let_def
      split: option.splits prod.splits api_response.splits list.splits)

lemma post_plain:
  assumes "map_of (channel_list s) (yt_channelid e) = Some videos"
    and "query_video (new_Video (yt_videoid e) (e_title e) (e_link e)) w = Some (Inr True, v, w1)"
    and "type v = Some VIDEO"
    and "\<not> is_dup (find (\<lambda>x. yt_videoid e = video_id x) videos) v"
  shows "post cfg (Feed (e # es)) s w =
           Some (fst (post_video cfg (yt_channelid e) v s),
                 snd (post_video cfg (yt_channelid e) v s), w1)"
  using assms by (simp add: post_def Let_def new_Video_def split: prod.splits)

text \<open>
  C4. In every run from the initial state, whatever the triggers and the environment,
  no video id has more than one publish event. And a notification for a tracked channel
  that resolves to a plain video, is not set aside as a duplicate, and is answered, has
  sent the publish event of the video exactly when its id was not in \<open>read_list\<close>; then
  the id is in \<open>read_list\<close> afterwards, and otherwise the state is as it was.
\<close>

theorem publish_at_most_once:
  "(\<forall>ts w s' w'. run cfg ts init_state w = Some (s', w') \<longrightarrow> publish_count vid s' \<le> 1)
   \<and> (\<forall>e es s w videos v w1 r s' w'.
         map_of (channel_list s) (yt_channelid e) = Some videos \<longrightarrow>
         query_video (new_Video (yt_videoid e) (e_title e) (e_link e)) w =
           Some (Inr True, v, w1) \<longrightarrow>
         type v = Some VIDEO \<longrightarrow>
         \<not> is_dup (find (\<lambda>x. yt_videoid e = video_id x) videos) v \<longrightarrow>
         post cfg (Feed (e # es)) s w = Some (Inr r, s', w') \<longrightarrow>
           (sent s' =
              sent s @ [\<lparr>ev_type = Some VIDEO, event = PUBLISH, channel = yt_channelid e,
                         video = v\<rparr>])
             = (\<not> published (yt_videoid e) s)
           \<and> (\<not> published (yt_videoid e) s \<longrightarrow> published (yt_videoid e) s')
           \<and> (published (yt_videoid e) s \<longrightarrow> s' = s))"
proof (intro conjI allI impI)
  fix ts w s' w'
  assume "run cfg ts init_state w = Some (s', w')"
  from run_inv [OF this publish_inv_init] show "publish_count vid s' \<le> 1"
    by (simp add: publish_inv_def)
next
  fix e es s w videos v w1 r s' w'
  assume t: "map_of (channel_list s) (yt_channelid e) = Some videos"
    and q: "query_video (new_Video (yt_videoid e) (e_title e) (e_link e)) w =
              Some (Inr True, v, w1)"
    and k: "type v = Some VIDEO"
    and d: "\<not> is_dup (find (\<lambda>x. yt_videoid e = video_id x) videos) v"
    and p: "post cfg (Feed (e # es)) s w = Some (Inr r, s', w')"
  from query_video_video_id [OF q] have i: "video_id v = yt_videoid e"
    by (simp add: new_Video_def)
  from post_plain [OF t q k d, of cfg es] p
  have pv: "post_video cfg (yt_channelid e) v s = (Inr r, s')"
    by (simp add: prod_eq_iff)
  from post_video_cases [OF pv]
  have c: "(published (yt_videoid e) s \<and> s' = s)
       \<or> (\<not> published (yt_videoid e) s
           \<and> sent s' = sent s @ [\<lparr>ev_type = Some VIDEO, event = PUBLISH,
                                    channel = yt_channelid e, video = v\<rparr>]
           \<and> read_list s' = read_list s @ [v])"
    by (auto simp: i k)
  from c show "(sent s' =
              sent s @ [\<lparr>ev_type = Some VIDEO, event = PUBLISH, channel = yt_channelid e,
                         video = v\<rparr>])
             = (\<not> published (yt_videoid e) s)"
    by auto
  {
    assume "\<not> published (yt_videoid e) s"
    with c i show "published (yt_videoid e) s'"
      by (auto simp: published_def)
  }
  {
    assume "published (yt_videoid e) s"
    with c show "s' = s" by auto
  }
qed

lemma ex_query_plain:
  "query_video (new_Video ''x'' ''t'' ''l'') (ex_env (Answered ex_plain # n)) =
     Some (Inr True, ex_plain_video, ex_env n)"
  by (simp add: query_video_def read_response_def ex_env_def ex_plain_def ex_plain_video_def
      new_Video_def apply_snippet_def apply_streaming_def)

lemma ex_post_plain:
  "post ex_config (Feed [ex_entry ''x'']) ex_tracked (ex_env (Answered ex_plain # n)) =
     Some (Inr empty_response, ex_published, ex_env n)"
  by (simp add: post_def ex_entry_def ex_query_plain Let_def ex_tracked_def init_state_def
      is_dup_def ex_plain_video_def post_video_def new_YoutubeEvent_def
      send_youtube_event_def build_event_def ex_config_def ex_options_def get_vtuber_def
      ex_published_def ex_publish_def)

lemma ex_post_plain_again:
  "post ex_config (Feed [ex_entry ''x'']) ex_published (ex_env (Answered ex_plain # n)) =
     Some (Inr empty_response, ex_published, ex_env n)"
  by (simp add: post_def ex_entry_def ex_query_plain Let_def ex_published_def
      is_dup_def ex_plain_video_def post_video_def)

lemma ex_subscribe:
  "subscribe ''c1'' init_state (ex_env (Answered EmptyJson # n)) =
     Some (Inr (), ex_tracked, ex_env n)"
  by (simp add: subscribe_def hub_subscribe_def init_state_def ex_env_def ex_tracked_def)

lemma ex_run_publish:
  "run ex_config [Subscribe_channel ''c1'', Post (Feed [ex_entry ''x'']),
                  Post (Feed [ex_entry ''x''])] init_state
     (ex_env [Answered EmptyJson, Answered ex_plain, Answered ex_plain]) =
   Some (ex_published, ex_env [])"
  by (simp add: handle_def ex_subscribe ex_post_plain ex_post_plain_again)

theorem publish_at_most_once_witness:
  "run ex_config [Subscribe_channel ''c1'', Post (Feed [ex_entry ''x'']),
                  Post (Feed [ex_entry ''x''])] init_state
     (ex_env [Answered EmptyJson, Answered ex_plain, Answered ex_plain]) =
   Some (ex_published, ex_env [])
   \<and> publish_count ''x'' ex_published \<le> 1
   \<and> post ex_config (Feed [ex_entry ''x'']) ex_tracked (ex_env [Answered ex_plain]) =
       Some (Inr empty_response, ex_published, ex_env [])
   \<and> sent ex_published = sent ex_tracked @ [ex_publish]
   \<and> published ''x'' ex_published"
proof -
  note A = publish_at_most_once [of ex_config "''x''"]
  from A ex_run_publish have 1: "publish_count ''x'' ex_published \<le> 1"
    by blast
  have t: "map_of (channel_list ex_tracked) (yt_channelid (ex_entry ''x'')) = Some []"
    by (simp add: ex_tracked_def init_state_def ex_entry_def)
  have q: "query_video (new_Video (yt_videoid (ex_entry ''x'')) (e_title (ex_entry ''x''))
                          (e_link (ex_entry ''x''))) (ex_env [Answered ex_plain]) =
             Some (Inr True, ex_plain_video, ex_env [])"
    by (simp add: ex_entry_def ex_query_plain)
  have k: "type ex_plain_video = Some VIDEO"
    by (simp add: ex_plain_video_def)
  have d: "\<not> is_dup (find (\<lambda>x. yt_videoid (ex_entry ''x'') = video_id x) []) ex_plain_video"
    by (simp add: is_dup_def)
  have n: "\<not> published (yt_videoid (ex_entry ''x'')) ex_tracked"
    by (simp add: published_def ex_tracked_def init_state_def)
  have p: "post ex_config (Feed (ex_entry ''x'' # [])) ex_tracked (ex_env [Answered ex_plain]) =
             Some (Inr empty_response, ex_published, ex_env [])"
    by (rule ex_post_plain)
  from A t q k d p n
  have 2: "sent ex_published =
             sent ex_tracked @ [\<lparr>ev_type = Some VIDEO, event = PUBLISH,
                                  channel = yt_channelid (ex_entry ''x''),
                                  video = ex_plain_video\<rparr>]"
    and 3: "published (yt_videoid (ex_entry ''x'')) ex_published"
    by blast+
  from 2 have s2: "sent ex_published = sent ex_tracked @ [ex_publish]"
    by (simp add: ex_publish_def ex_entry_def)
  from 3 have s3: "published ''x'' ex_published"
    by (simp add: ex_entry_def)
  from ex_run_publish 1 p s2 s3 show ?thesis by blast
qed

section \<open>The tick and the reminder jobs\<close>

lemma new_Video_video_id: "video_id (new_Video a b c) = a"
  by (simp add: new_Video_def)

lemma ex_two_reached:
  "post ex_config (Feed [ex_entry ''y'']) ex_pending
     (ex_env (Answered (ex_broadcast (Some 1300) None) # n)) =
   Some (Inr empty_response, ex_two, ex_env n)"
  by (simp add: post_def ex_entry_def ex_query_broadcast Let_def ex_pending_def
      is_dup_def ex_video_def post_broadcast_def new_YoutubeEvent_def set_reminder_def
      get_job_def add_job_def job_id_def send_youtube_event_def build_event_def ex_config_def
      ex_options_def get_vtuber_def broadcast_data_def ex_two_def ex_reminder_def
      ex_event_def ex_bus_schedule_def new_Video_video_id)

lemma ex_query_again:
  "query_video (ex_video vid sch act) ((ex_env (Answered (ex_broadcast sch' act') # n))\<lparr>reads := k\<rparr>) =
     Some (Inr True,
           ex_video vid (case sch' of None \<Rightarrow> sch | Some t \<Rightarrow> Some t)
             (case act' of None \<Rightarrow> act | Some t \<Rightarrow> Some t),
           (ex_env n)\<lparr>reads := k\<rparr>)"
  by (cases sch'; cases act')
     (simp_all add: query_video_def read_response_def ex_env_def ex_broadcast_def ex_video_def
        apply_snippet_def apply_streaming_def)

lemma ex_tick_video_live:
  "tick_video ex_config ''c1'' (ex_video ''x'' (Some 1200) act) s
     ((ex_env (Answered (ex_broadcast (Some 1200) (Some 990)) # n))\<lparr>reads := k\<rparr>) =
   Some (Inr [(''c1'', ex_live_video)], ex_live_video,
         s\<lparr>bus := bus s @ [ex_bus_live], sent := sent s @ [ex_event LIVE ex_live_video]\<rparr>,
         (ex_env n)\<lparr>reads := Suc k\<rparr>)"
proof -
  have n: "now ((ex_env (Answered (ex_broadcast (Some 1200) (Some 990)) # n))\<lparr>reads := k\<rparr>) =
             (1000, (ex_env (Answered (ex_broadcast (Some 1200) (Some 990)) # n))\<lparr>reads := Suc k\<rparr>)"
    by (simp add: now_def ex_env_def)
  have s: "send_youtube_event ex_config (ex_event LIVE ex_live_video) s =
             (Inr (), s\<lparr>bus := bus s @ [ex_bus_live], sent := sent s @ [ex_event LIVE ex_live_video]\<rparr>)"
    by (simp add: send_youtube_event_def build_event_def ex_config_def ex_options_def
        get_vtuber_def ex_event_def ex_live_video_def ex_video_def broadcast_data_def
        ex_bus_live_def)
  have y: "new_YoutubeEvent (Some BROADCAST) LIVE ''c1'' ex_live_video =
             Inr (ex_event LIVE ex_live_video)"
    by (simp add: new_YoutubeEvent_def ex_event_def ex_live_video_def ex_video_def)
  have a: "actual_start_time ex_live_video = Some 990"
    and c: "scheduled_start_time (ex_video ''x'' (Some 1200) act) = Some 1200"
    by (simp_all add: ex_live_video_def ex_video_def)
  show ?thesis
    by (simp add: tick_video_def n c ex_query_again a y s flip: ex_live_video_def)
qed

lemma ex_now:
  "now ((ex_env n)\<lparr>reads := k\<rparr>) = (1000, (ex_env n)\<lparr>reads := Suc k\<rparr>)"
  by (simp add: now_def ex_env_def)

lemma ex_tick_video_error:
  "tick_video ex_config ''c1'' (ex_video ''y'' (Some 1300) None) s
     ((ex_env (Answered NoItems # n))\<lparr>reads := k\<rparr>) =
   Some (Inl KeyError, ex_video ''y'' (Some 1300) None, s, (ex_env n)\<lparr>reads := Suc k\<rparr>)"
proof -
  have q: "query_video (ex_video ''y'' (Some 1300) None)
             ((ex_env (Answered NoItems # n))\<lparr>reads := Suc k\<rparr>) =
           Some (Inl KeyError, ex_video ''y'' (Some 1300) None, (ex_env n)\<lparr>reads := Suc k\<rparr>)"
    by (simp add: query_video_def read_response_def ex_env_def)
  have c: "scheduled_start_time (ex_video ''y'' (Some 1300) None) = Some 1300"
    by (simp add: ex_video_def)
  show ?thesis
    by (simp add: tick_video_def ex_now c q)
qed

lemma ex_tick_video_wait:
  "tick_video ex_config ''c1'' (ex_video ''y'' (Some 1300) None) s
     ((ex_env (Answered (ex_broadcast (Some 1300) None) # n))\<lparr>reads := k\<rparr>) =
   Some (Inr [], ex_video ''y'' (Some 1300) None, s, (ex_env n)\<lparr>reads := Suc k\<rparr>)"
proof -
  have c: "scheduled_start_time (ex_video ''y'' (Some 1300) None) = Some 1300"
    and a: "actual_start_time (ex_video ''y'' (Some 1300) None) = None"
    by (simp_all add: ex_video_def)
  show ?thesis
    by (simp add: tick_video_def ex_now c ex_query_again a)
qed

lemma ex_env_reads: "(ex_env n)\<lparr>reads := 0\<rparr> = ex_env n"
  by (simp add: ex_env_def)

lemma ex_tick_aborted:
  "tick ex_config ex_two
     (ex_env (Answered (ex_broadcast (Some 1200) (Some 990)) # Answered NoItems # n)) =
   Some (Inl KeyError, ex_aborted, (ex_env n)\<lparr>reads := 2\<rparr>)"
proof -
  have c: "channel_list ex_two =
             [(''c1'', [ex_video ''x'' (Some 1200) None, ex_video ''y'' (Some 1300) None])]"
    by (simp add: ex_two_def)
  have "tick ex_config ex_two
          ((ex_env (Answered (ex_broadcast (Some 1200) (Some 990)) # Answered NoItems # n))
             \<lparr>reads := 0\<rparr>) =
        Some (Inl KeyError, ex_aborted, (ex_env n)\<lparr>reads := 2\<rparr>)"
    by (simp add: tick_def c ex_tick_video_live ex_tick_video_error ex_aborted_def
        numeral_2_eq_2)
  then show ?thesis
    by (simp only: ex_env_reads)
qed

lemma ex_tick_twice:
  "tick ex_config ex_aborted
     ((ex_env (Answered (ex_broadcast (Some 1200) (Some 990)) #
               Answered (ex_broadcast (Some 1300) None) # n))\<lparr>reads := k\<rparr>) =
   Some (Inr (), ex_twice, (ex_env n)\<lparr>reads := Suc (Suc k)\<rparr>)"
proof -
  have c: "channel_list ex_aborted =
             [(''c1'', [ex_live_video, ex_video ''y'' (Some 1300) None])]"
    by (simp add: ex_aborted_def)
  note l = ex_tick_video_live [of "Some 990", folded ex_live_video_def]
  show ?thesis
    by (simp add: tick_def c l ex_tick_video_wait list_remove_def ex_aborted_def ex_twice_def)
qed

lemma ex_tick_went_live:
  "tick ex_config ex_pending (ex_env (Answered (ex_broadcast (Some 1200) (Some 990)) # n)) =
   Some (Inr (), ex_went_live, (ex_env n)\<lparr>reads := 1\<rparr>)"
proof -
  have c: "channel_list ex_pending = [(''c1'', [ex_video ''x'' (Some 1200) None])]"
    by (simp add: ex_pending_def)
  have "tick ex_config ex_pending
          ((ex_env (Answered (ex_broadcast (Some 1200) (Some 990)) # n))\<lparr>reads := 0\<rparr>) =
        Some (Inr (), ex_went_live, (ex_env n)\<lparr>reads := 1\<rparr>)"
    by (simp add: tick_def c ex_tick_video_live list_remove_def ex_went_live_def)
  then show ?thesis
    by (simp only: ex_env_reads)
qed

lemma ex_run_went_live:
  "run ex_config [Subscribe_channel ''c1'', Post (Feed [ex_entry ''x'']), Tick] init_state
     (ex_env [Answered EmptyJson, Answered (ex_broadcast (Some 1200) None),
              Answered (ex_broadcast (Some 1200) (Some 990))]) =
   Some (ex_went_live, (ex_env [])\<lparr>reads := 1\<rparr>)"
  by (simp add: handle_def ex_subscribe ex_pending_reached ex_tick_went_live)

text \<open>
  C2. The claim is that after every operation a reminder job exists exactly for the
  videos that are pending. The tick takes a video out of the pending list and leaves its
  job, where \<open>unsubscribe\<close> removes the jobs of the videos it lets go: after \<open>c1\<close> was
  subscribed and the broadcast \<open>x\<close> announced for 1200, a tick at 1000 to which the API
  reports that \<open>x\<close> started at 990 sends the live event and removes \<open>x\<close>; the channel
  has no pending video, and the job \<open>reminder_c1_x\<close> is still there, to fire at 1200.
\<close>

theorem tick_leaves_reminder_job:
  "map_option (\<lambda>(s, w). (channel_list s, map (\<lambda>(i, j). (i, fire_at j)) (jobs s)))
     (run ex_config [Subscribe_channel ''c1'', Post (Feed [ex_entry ''x'']), Tick] init_state
        (ex_env [Answered EmptyJson, Answered (ex_broadcast (Some 1200) None),
                 Answered (ex_broadcast (Some 1200) (Some 990))])) =
   Some ([(''c1'', [])], [(''reminder_c1_x'', 1200)])"
  by (subst ex_run_went_live) (simp add: ex_went_live_def ex_pending_def ex_reminder_def)

lemma ex_run_twice:
  "run ex_config [Subscribe_channel ''c1'', Post (Feed [ex_entry ''x'']),
                  Post (Feed [ex_entry ''y'']), Tick, Tick] init_state
     (ex_env [Answered EmptyJson, Answered (ex_broadcast (Some 1200) None),
              Answered (ex_broadcast (Some 1300) None),
              Answered (ex_broadcast (Some 1200) (Some 990)), Answered NoItems,
              Answered (ex_broadcast (Some 1200) (Some 990)),
              Answered (ex_broadcast (Some 1300) None)]) =
   Some (ex_twice, (ex_env [])\<lparr>reads := 4\<rparr>)"
proof -
  have t: "tick ex_config ex_aborted
     ((ex_env [Answered (ex_broadcast (Some 1200) (Some 990)),
               Answered (ex_broadcast (Some 1300) None)])\<lparr>reads := 2\<rparr>) =
   Some (Inr (), ex_twice, (ex_env [])\<lparr>reads := 4\<rparr>)"
    using ex_tick_twice [where n = "[]" and k = 2] by (simp add: eval_nat_numeral)
  show ?thesis
    by (simp add: handle_def ex_subscribe ex_pending_reached ex_two_reached ex_tick_aborted t)
qed

text \<open>
  C5. The claim is that no sequence of ticks sends the live event of a broadcast twice,
  the broadcast being removed at the tick that finds it live. The removals are applied
  after the loops, so a tick that raises later in the loops applies none: with \<open>x\<close> and
  \<open>y\<close> pending, a tick to which the API reports \<open>x\<close> live and answers the query for
  \<open>y\<close> with its error body sends the live event of \<open>x\<close> and ends in \<^verbatim>\<open>KeyError\<close>;
  \<open>x\<close> stays pending, and the next tick sends the live event of \<open>x\<close> again.
\<close>

theorem tick_sends_live_twice:
  "map_option (\<lambda>(s, w). (map (\<lambda>(c, vs). (c, map video_id vs)) (channel_list s),
                            live_count ''c1'' ''x'' s))
     (run ex_config [Subscribe_channel ''c1'', Post (Feed [ex_entry ''x'']),
                     Post (Feed [ex_entry ''y'']), Tick, Tick] init_state
        (ex_env [Answered EmptyJson, Answered (ex_broadcast (Some 1200) None),
                 Answered (ex_broadcast (Some 1300) None),
                 Answered (ex_broadcast (Some 1200) (Some 990)), Answered NoItems,
                 Answered (ex_broadcast (Some 1200) (Some 990)),
                 Answered (ex_broadcast (Some 1300) None)])) =
   Some ([(''c1'', [''y''])], 2)"
  by (subst ex_run_twice)
     (simp add: live_count_def ex_twice_def ex_two_def ex_event_def ex_live_video_def
        ex_video_def)

section \<open>Saving and restoring\<close>

text \<open>A saved video is loaded as it was, when it has a type and no time is the
  timestamp \<open>0\<close>.\<close>

lemma ResourceType_of_name_name: "ResourceType_of_name (ResourceType_name t) = Inr t"
  by (cases t) (simp_all add: ResourceType_of_name_def)

lemma load_dump:
  assumes "dump v = Inr d"
    and "scheduled_start_time v \<noteq> Some 0" and "actual_start_time v \<noteq> Some 0"
  shows "load d = Inr v"
proof -
  from assms(1) obtain t where t: "type v = Some t"
    and d: "d = \<lparr>d_video_id = video_id v, d_title = title v, d_link = link v,
               d_type = ResourceType_name t, d_description = description v,
               d_thumbnail = thumbnail v,
               d_scheduled_start_time = scheduled_start_time v,
               d_actual_start_time = actual_start_time v\<rparr>"
    by (auto simp: dump_def split: option.splits)
  from assms(2,3) have "load_time (scheduled_start_time v) = scheduled_start_time v"
    "load_time (actual_start_time v) = actual_start_time v"
    by (auto simp: load_time_def split: option.splits)
  with t show ?thesis
    by (simp add: load_def d ResourceType_of_name_name)
qed

text \<open>
  C1. The claim is that restoring what was saved gives back the tracked channels, the
  pending broadcasts and the published videos, each pending broadcast under its channel.
  \<open>load_state\<close> runs at startup, where \<^verbatim>\<open>channel_list\<close> is empty, and appends to
  \<^verbatim>\<open>channel_list[channel]\<close> without making the key: the state with \<open>x\<close> pending in
  \<open>c1\<close> is saved, and restoring it, the API reporting \<open>x\<close> still not started, adds the
  job and ends in \<^verbatim>\<open>KeyError\<close>; no channel is tracked and no broadcast pending.
\<close>

theorem restore_raises:
  "dump_state ex_pending \<lparr>youtube_live_state = None, youtube_video_state = None\<rparr> =
     (Inr (), ex_saved)
   \<and> load_state ex_saved init_state (ex_env [Answered (ex_broadcast (Some 1200) None)]) =
       Some (Inl KeyError, init_state\<lparr>jobs := [ex_reminder ''x'' 1200]\<rparr>, ex_env [])"
proof -
  have 1: "dump_state ex_pending \<lparr>youtube_live_state = None, youtube_video_state = None\<rparr> =
     (Inr (), ex_saved)"
    by (simp add: dump_state_def ex_pending_def dump_def ex_video_def ex_saved_def)
  have l: "load \<lparr>d_video_id = ''x'', d_title = ''t'', d_link = ''l'',
                  d_type = ''BROADCAST'', d_description = '''',
                  d_thumbnail = Some '''', d_scheduled_start_time = Some 1200,
                  d_actual_start_time = None\<rparr> = Inr (ex_video ''x'' (Some 1200) None)"
    by (simp add: load_def ResourceType_of_name_def load_time_def ex_video_def)
  have q: "query_video (ex_video ''x'' (Some 1200) None)
             (ex_env [Answered (ex_broadcast (Some 1200) None)]) =
           Some (Inr True, ex_video ''x'' (Some 1200) None, ex_env [])"
    using ex_query_again [where vid = "''x''" and sch = "Some 1200" and act = None
        and sch' = "Some 1200" and act' = None and n = "[]" and k = 0]
    by (simp add: ex_env_reads)
  have 2: "load_state ex_saved init_state (ex_env [Answered (ex_broadcast (Some 1200) None)]) =
       Some (Inl KeyError, init_state\<lparr>jobs := [ex_reminder ''x'' 1200]\<rparr>, ex_env [])"
    by (simp add: load_state_def ex_saved_def load_video_def l q)
       (simp add: ex_video_def new_YoutubeEvent_def add_job_def init_state_def job_id_def
          ex_reminder_def ex_event_def)
  from 1 2 show ?thesis by blast
qed

end
